theory Spec2Isabelle
  imports Main "HOL-Library.Extended_Nat"
begin

section \<open>Values, messages and thrown things\<close>

text \<open>
  The JavaScript values that \<^verbatim>\<open>Argument.js\<close> produces or inspects. \<open>VExec s i\<close> is the
  array a successful \<^verbatim>\<open>RegExp.prototype.exec\<close> returns: the matched text and its index
  (capture groups are not modelled).
\<close>

datatype val =
    VNull
  | VUndefined
  | VBool bool
  | VNum int
  | VStr string
  | VExec string nat
  | VList "val list"
  | VObj "(string \<times> val) list"

text \<open>\<^verbatim>\<open>res == null\<close> holds of \<^verbatim>\<open>null\<close> and of \<^verbatim>\<open>undefined\<close>.\<close>

definition nullish :: "val \<Rightarrow> bool" where
  "nullish v = (v = VNull \<or> v = VUndefined)"

text \<open>A message: its id, the ids of its author and channel, and its text.\<close>

record message =
  msg_id :: nat
  author :: nat
  channel :: nat
  content :: string

text \<open>The \<^verbatim>\<open>args\<close> object: previous arguments by id.\<close>

type_synonym prev_args = "string \<rightharpoonup> val"

text \<open>
  What a \<^verbatim>\<open>throw\<close> or a rejected promise carries. \<open>ErrorObj\<close> is any instance of
  \<^verbatim>\<open>Error\<close>; \<open>CommandCancelled\<close> is the symbol \<^verbatim>\<open>Symbols.COMMAND_CANCELLED\<close>;
  \<open>TimeExpired\<close> is what \<^verbatim>\<open>awaitMessages\<close> rejects with when the window closes (the
  collection of messages, not an \<^verbatim>\<open>Error\<close>); \<open>NonError\<close> is any other thrown value.
\<close>

datatype thrown =
    ErrorObj string
  | CommandCancelled
  | TimeExpired
  | NonError string

text \<open>
  A user-supplied function of \<^verbatim>\<open>(word, message, args)\<close>. Its result is taken after
  \<^verbatim>\<open>if (isPromise(res)) res = await res\<close>: \<open>Inr v\<close> when it returns or resolves to \<open>v\<close>,
  \<open>Inl e\<close> when it throws or rejects with \<open>e\<close>.
\<close>

type_synonym castfn = "string \<Rightarrow> message \<Rightarrow> prev_args \<Rightarrow> thrown + val"

section \<open>Strings\<close>

text \<open>
  A character is a code unit from 0 to 255, read as Latin-1. On these,
  \<^verbatim>\<open>String.prototype.toLowerCase\<close> moves the letters \<^verbatim>\<open>A\<close> to \<^verbatim>\<open>Z\<close> (65 to 90) and the
  Latin-1 capitals (192 to 222, but for the multiplication sign 215) up by 32 and leaves
  every other code unit as it is.
\<close>

definition lower_char :: "char \<Rightarrow> char" where
  "lower_char c =
     (let n = (of_char c :: nat) in
      if (65 \<le> n \<and> n \<le> 90) \<or> (192 \<le> n \<and> n \<le> 222 \<and> n \<noteq> 215) then char_of (n + 32)
      else c)"

definition toLowerCase :: "string \<Rightarrow> string" where
  "toLowerCase s = map lower_char s"

text \<open>\<^verbatim>\<open>String.prototype.trim\<close>: white space and line terminators go from both ends.\<close>

definition is_space :: "char \<Rightarrow> bool" where
  "is_space c = (let n = (of_char c :: nat) in n = 32 \<or> (9 \<le> n \<and> n \<le> 13) \<or> n = 160)"

definition trim :: "string \<Rightarrow> string" where
  "trim s = rev (dropWhile is_space (rev (dropWhile is_space s)))"

definition substring :: "string \<Rightarrow> nat \<Rightarrow> nat \<Rightarrow> string" where
  "substring s b len = take len (drop b s)"

section \<open>Regular expressions\<close>

text \<open>
  A \<^verbatim>\<open>RegExp\<close> object without the sticky flag. \<open>matcher rx s b\<close> is the compiled pattern
  run on \<open>s\<close> at index \<open>b\<close>: the length of the match that starts there, if there is one.
\<close>

record regexp =
  matcher :: "string \<Rightarrow> nat \<Rightarrow> nat option"
  global :: bool

fun scan :: "(nat \<Rightarrow> nat option) \<Rightarrow> nat list \<Rightarrow> (nat \<times> nat) option" where
  "scan m [] = None"
| "scan m (b # bs) = (case m b of Some len \<Rightarrow> Some (b, len) | None \<Rightarrow> scan m bs)"

text \<open>The leftmost match that starts at index \<open>i\<close> or later.\<close>

definition search :: "regexp \<Rightarrow> string \<Rightarrow> nat \<Rightarrow> (nat \<times> nat) option" where
  "search rx s i = scan (matcher rx s) [i..<Suc (length s)]"

text \<open>
  \<^verbatim>\<open>rx.exec(s)\<close> with \<^verbatim>\<open>rx.lastIndex = lastIndex\<close>: the result (\<open>None\<close> for
  \<^verbatim>\<open>null\<close>) and the new \<^verbatim>\<open>lastIndex\<close>. A global pattern starts at \<^verbatim>\<open>lastIndex\<close> and
  leaves it at the end of the match, or at 0 when nothing matches; any other pattern
  starts at 0 and leaves \<^verbatim>\<open>lastIndex\<close> alone.
\<close>

definition exec :: "regexp \<Rightarrow> string \<Rightarrow> nat \<Rightarrow> val option \<times> nat" where
  "exec rx s lastIndex =
     (if global rx then
        (if length s < lastIndex then (None, 0)
         else case search rx s lastIndex of
                None \<Rightarrow> (None, 0)
              | Some (b, len) \<Rightarrow> (Some (VExec (substring s b len) b), b + len))
      else
        (case search rx s 0 of
           None \<Rightarrow> (None, lastIndex)
         | Some (b, len) \<Rightarrow> (Some (VExec (substring s b len) b), lastIndex)))"

lemma scan_bounds: "scan m bs = Some (b, len) \<Longrightarrow> b \<in> set bs"
  by (induction bs) (auto split: option.splits)

lemma search_bounds: "search rx s i = Some (b, len) \<Longrightarrow> i \<le> b \<and> b \<le> length s"
proof -
  assume "search rx s i = Some (b, len)"
  then have "b \<in> set [i..<Suc (length s)]"
    unfolding search_def by (rule scan_bounds)
  then show ?thesis by auto
qed

text \<open>
  \<^verbatim>\<open>s.match(rx)\<close> for a global pattern collects the text of every match; after an empty
  match it steps one index forward.
\<close>

function match_all :: "regexp \<Rightarrow> string \<Rightarrow> nat \<Rightarrow> string list" where
  "match_all rx s i =
     (if length s < i then []
      else case search rx s i of
             None \<Rightarrow> []
           | Some (b, len) \<Rightarrow>
               substring s b len # match_all rx s (if len = 0 then Suc b else b + len))"
  by pat_completeness auto
termination
proof (relation "measure (\<lambda>(rx, s, i). Suc (length s) - i)")
  show "wf (measure (\<lambda>(rx, s, i). Suc (length s) - i))" by simp
next
  fix rx :: regexp and s :: string and i :: nat and x2 :: "nat \<times> nat" and b len :: nat
  assume "\<not> length s < i" and "search rx s i = Some x2" and "(b, len) = x2"
  then have "i \<le> b \<and> b \<le> length s"
    using search_bounds [of rx s i b len] by simp
  then show "((rx, s, if len = 0 then Suc b else b + len), rx, s, i)
               \<in> measure (\<lambda>(rx, s, i). Suc (length s) - i)"
    by auto
qed

text \<open>\<^verbatim>\<open>word.match(this.type)\<close>: \<open>VNull\<close> when nothing matches.\<close>

definition string_match :: "string \<Rightarrow> regexp \<Rightarrow> val" where
  "string_match s rx =
     (if global rx then
        (case match_all rx s 0 of [] \<Rightarrow> VNull | ms \<Rightarrow> VList (map VStr ms))
      else
        (case fst (exec rx s 0) of None \<Rightarrow> VNull | Some m \<Rightarrow> m))"

text \<open>
  The loop \<^verbatim>\<open>while ((matched = this.type.exec(word)) != null) matches.push(matched)\<close>
  of \<^verbatim>\<open>cast\<close>. The only state it changes is \<^verbatim>\<open>lastIndex\<close> and \<^verbatim>\<open>matches\<close>. It need not
  end: \<open>None\<close> is the loop that never returns.
\<close>

partial_function (option) exec_loop :: "regexp \<Rightarrow> string \<Rightarrow> nat \<Rightarrow> val list \<Rightarrow> val list option"
where
  "exec_loop rx word lastIndex matches =
     (case exec rx word lastIndex of
        (None, _) \<Rightarrow> Some matches
      | (Some matched, lastIndex') \<Rightarrow> exec_loop rx word lastIndex' (matches @ [matched]))"

declare exec_loop.simps [code]

section \<open>Casting a word: \<^verbatim>\<open>Argument.cast\<close>\<close>

text \<open>
  An entry of an array type: a string, or an inner array of aliases.
\<close>

datatype choice = Single string | Aliases "string list"

datatype argument_type =
    Choices "choice list"
  | TypeFunction castfn
  | Pattern regexp
  | TypeName string

text \<open>The \<^verbatim>\<open>for (const entry of this.type)\<close> loop; \<^verbatim>\<open>entry[0]\<close> of an empty array is
  \<^verbatim>\<open>undefined\<close>.\<close>

fun castChoices :: "choice list \<Rightarrow> string \<Rightarrow> val" where
  "castChoices [] word = VNull"
| "castChoices (Aliases entry # rest) word =
     (if list_ex (\<lambda>t. toLowerCase t = toLowerCase word) entry
      then (case entry of [] \<Rightarrow> VUndefined | e0 # _ \<Rightarrow> VStr e0)
      else castChoices rest word)"
| "castChoices (Single entry # rest) word =
     (if toLowerCase entry = toLowerCase word then VStr entry else castChoices rest word)"

text \<open>
  Calling a type function: \<^verbatim>\<open>if (res != null) return res; return null;\<close>
\<close>

definition castFunction :: "castfn \<Rightarrow> string \<Rightarrow> message \<Rightarrow> prev_args \<Rightarrow> thrown + val" where
  "castFunction f word msg as =
     (case f word msg as of
        Inl e \<Rightarrow> Inl e
      | Inr res \<Rightarrow> if \<not> nullish res then Inr res else Inr VNull)"

definition castPattern :: "regexp \<Rightarrow> string \<Rightarrow> (thrown + val) option" where
  "castPattern rx word =
     (let matched = string_match word rx in
      if matched = VNull then Some (Inr VNull)
      else if global rx then
        (case exec_loop rx word 0 [] of
           None \<Rightarrow> None
         | Some matches \<Rightarrow> Some (Inr (VObj [(''match'', matched), (''matches'', VList matches)])))
      else Some (Inr (VObj [(''match'', matched), (''matches'', VList [])])))"

text \<open>
  \<^verbatim>\<open>cast(word, message, args)\<close> (lines 313 to 362). \<open>resolver\<close> is
  \<^verbatim>\<open>this.handler.resolver.type\<close>, the registry of named types. The result is \<open>None\<close> when the call never returns,
  \<open>Some (Inl e)\<close> when it rejects with \<open>e\<close>, \<open>Some (Inr v)\<close> when it resolves to \<open>v\<close>.
\<close>

fun cast :: "(string \<Rightarrow> castfn option) \<Rightarrow> argument_type \<Rightarrow> string \<Rightarrow> message \<Rightarrow> prev_args
    \<Rightarrow> (thrown + val) option" where
  "cast resolver (Choices entries) word msg as = Some (Inr (castChoices entries word))"
| "cast resolver (TypeFunction f) word msg as = Some (castFunction f word msg as)"
| "cast resolver (Pattern rx) word msg as = castPattern rx word"
| "cast resolver (TypeName name) word msg as =
     (case resolver name of
        Some f \<Rightarrow> Some (castFunction f word msg as)
      | None \<Rightarrow> if word \<noteq> [] then Some (Inr (VStr word)) else Some (Inr VNull))"

section \<open>Prompt options and prompt text\<close>

text \<open>
  \<^verbatim>\<open>ArgumentPromptData\<close>, the third argument of a prompt function:
  \<^verbatim>\<open>{ retries, infinite, message, word }\<close>.
\<close>

record prompt_data =
  d_retries :: nat
  d_infinite :: bool
  d_message :: message
  d_word :: string

text \<open>
  A text option is a string, an array of strings, or an \<^verbatim>\<open>ArgumentPromptFunction\<close>. The
  function's result is \<open>Inl e\<close> when it throws \<open>e\<close>, \<open>Inr None\<close> when it returns
  \<^verbatim>\<open>undefined\<close> or \<^verbatim>\<open>null\<close>, and else the string or array it returns.
\<close>

datatype prompt_text = Str string | Lines "string list"

datatype text_option =
    Static prompt_text
  | Generator "message \<Rightarrow> prev_args \<Rightarrow> prompt_data \<Rightarrow> thrown + prompt_text option"

text \<open>
  \<^verbatim>\<open>ArgumentPromptOptions\<close>. Every property is optional: \<open>None\<close> is a property that is
  not there.
\<close>

record prompt_options =
  retries :: "nat option"
  time :: "nat option"
  cancelWord :: "string option"
  stopWord :: "string option"
  optional :: "bool option"
  infinite' :: "bool option"
  limit :: "enat option"
  start :: "text_option option"
  retry :: "text_option option"
  timeout :: "text_option option"
  ended :: "text_option option"
  cancel :: "text_option option"

definition no_options :: prompt_options where
  "no_options = \<lparr>retries = None, time = None, cancelWord = None, stopWord = None,
     optional = None, infinite' = None, limit = None, start = None, retry = None,
     timeout = None, ended = None, cancel = None\<rparr>"

definition override :: "'a option \<Rightarrow> 'a option \<Rightarrow> 'a option" where
  "override tgt src = (case src of None \<Rightarrow> tgt | Some x \<Rightarrow> Some x)"

text \<open>\<^verbatim>\<open>Object.assign(target, source)\<close> on prompt options.\<close>

definition assign :: "prompt_options \<Rightarrow> prompt_options \<Rightarrow> prompt_options" where
  "assign tgt src =
     \<lparr>retries = override (retries tgt) (retries src),
      time = override (time tgt) (time src),
      cancelWord = override (cancelWord tgt) (cancelWord src),
      stopWord = override (stopWord tgt) (stopWord src),
      optional = override (optional tgt) (optional src),
      infinite' = override (infinite' tgt) (infinite' src),
      limit = override (limit tgt) (limit src),
      start = override (start tgt) (start src),
      retry = override (retry tgt) (retry src),
      timeout = override (timeout tgt) (timeout src),
      ended = override (ended tgt) (ended src),
      cancel = override (cancel tgt) (cancel src)\<rparr>"

text \<open>\<^verbatim>\<open>Array.prototype.join('\n')\<close>.\<close>

fun join_lines :: "string list \<Rightarrow> string" where
  "join_lines [] = []"
| "join_lines [l] = l"
| "join_lines (l # ls) = l @ [CHR 0x0A] @ join_lines ls"

fun joined :: "prompt_text \<Rightarrow> string" where
  "joined (Str s) = s"
| "joined (Lines ls) = join_lines ls"

text \<open>
  The closure \<^verbatim>\<open>getText\<close> of \<^verbatim>\<open>collect\<close> (lines 385 to 400); \<open>msg\<close>, \<open>as\<close> and \<open>isInfinite\<close>
  are the variables it captures. \<open>Inr None\<close> is \<^verbatim>\<open>undefined\<close>.
\<close>

definition getText :: "message \<Rightarrow> prev_args \<Rightarrow> bool \<Rightarrow> text_option option \<Rightarrow> nat \<Rightarrow> message
    \<Rightarrow> string \<Rightarrow> thrown + string option" where
  "getText msg as isInfinite textOption retryCount inputMessage inputWord =
     (case textOption of
        None \<Rightarrow> Inr None
      | Some (Static t) \<Rightarrow> Inr (Some (joined t))
      | Some (Generator g) \<Rightarrow>
          (case g msg as \<lparr>d_retries = retryCount, d_infinite = isInfinite,
                          d_message = inputMessage, d_word = inputWord\<rparr> of
             Inl e \<Rightarrow> Inl e
           | Inr None \<Rightarrow> Inr None
           | Inr (Some t) \<Rightarrow> Inr (Some (joined t))))"

section \<open>The argument, its handler and the outside world\<close>

text \<open>
  \<^verbatim>\<open>ArgumentMatch\<close>: the match methods the source documents. \<^verbatim>\<open>this.match\<close> is one of
  them, or a function of \<^verbatim>\<open>(message, args)\<close> that returns one.
\<close>

datatype match_mode = WORD | REST | SEPARATE | PREFIX | FLAG | TEXT | CONTENT | NONE

datatype match_spec =
    MatchMode match_mode
  | MatchFunction "message \<Rightarrow> prev_args \<Rightarrow> thrown + match_mode"

text \<open>
  The fields of an \<^verbatim>\<open>Argument\<close> that \<^verbatim>\<open>process\<close>, \<^verbatim>\<open>cast\<close> and \<^verbatim>\<open>collect\<close> read.
  \<open>arg_default\<close> is \<^verbatim>\<open>this.default\<close> after the constructor has wrapped a constant in a
  function; its result is taken after \<^verbatim>\<open>if (isPromise(res)) res = await res\<close>.
\<close>

record argument =
  arg_id :: string
  arg_match :: match_spec
  arg_type :: argument_type
  arg_prompt :: "prompt_options option"
  arg_default :: "message \<Rightarrow> prev_args \<Rightarrow> thrown + val"

text \<open>\<^verbatim>\<open>(message.util || message.channel)\<close>: what a text is sent through.\<close>

datatype target = Util | Channel

datatype event = AddPrompt | RemovePrompt | Send target string | AwaitMessages

text \<open>
  What \<^verbatim>\<open>this.handler\<close> and \<^verbatim>\<open>this.command\<close> give an argument, and the transport.
  \<open>commandUtil\<close> is \<^verbatim>\<open>this.handler.commandUtil\<close>; \<^verbatim>\<open>message.util\<close> is there exactly when
  it is set. \<open>deliver\<close> is the transport's answer to a \<^verbatim>\<open>send\<close> after the events so
  far: \<open>Inr i\<close> is the id of the message it created, \<open>Inl e\<close> a rejection.
\<close>

record environment =
  handlerDefaultPrompt :: prompt_options
  commandDefaultPrompt :: prompt_options
  commandUtil :: bool
  resolver :: "string \<Rightarrow> castfn option"
  deliver :: "event list \<Rightarrow> target \<Rightarrow> string \<Rightarrow> thrown + nat"

text \<open>
  What arrives while the engine waits for a reply: a message in the channel, the end
  of the reply window, or a failure of the transport.
\<close>

datatype incoming = Arrives message | WindowCloses | TransportFails thrown

text \<open>
  Everything a call can change. \<open>prompts\<close> is the handler's registry of active prompts,
  by channel and author. \<open>inbox\<close> is what is still to arrive. \<open>trace\<close> records the calls
  made to the handler and the transport. \<open>args\<close> is the \<^verbatim>\<open>args\<close> object. \<open>values'\<close> is
  the local \<^verbatim>\<open>values\<close> of \<^verbatim>\<open>collect\<close>; it is \<^verbatim>\<open>null\<close> and never read when the prompt is not
  infinite.
\<close>

record state =
  prompts :: "(nat \<times> nat) set"
  inbox :: "incoming list"
  trace :: "event list"
  shouldEdit :: bool
  lastResponse :: "nat option"
  args :: prev_args
  values' :: "val list"

text \<open>
  Modelled from the spec: \<^verbatim>\<open>handler.addPrompt\<close> and \<^verbatim>\<open>handler.removePrompt\<close> are not in
  the source file. The spec gives the tracker \<open>register(context)\<close> and
  \<open>deregister(context)\<close> on a registry keyed by the originating conversation and user.
\<close>

definition addPrompt :: "message \<Rightarrow> state \<Rightarrow> state" where
  "addPrompt msg st =
     st\<lparr>prompts := insert (channel msg, author msg) (prompts st),
        trace := trace st @ [AddPrompt]\<rparr>"

definition removePrompt :: "message \<Rightarrow> state \<Rightarrow> state" where
  "removePrompt msg st =
     st\<lparr>prompts := prompts st - {(channel msg, author msg)},
        trace := trace st @ [RemovePrompt]\<rparr>"

text \<open>\<^verbatim>\<open>await target.send(text)\<close>.\<close>

definition send :: "environment \<Rightarrow> target \<Rightarrow> string \<Rightarrow> state \<Rightarrow> (thrown + nat) \<times> state" where
  "send env tg txt st = (deliver env (trace st) tg txt, st\<lparr>trace := trace st @ [Send tg txt]\<rparr>)"

text \<open>
  \<^verbatim>\<open>if (text) sent = await target.send(text)\<close>: \<^verbatim>\<open>undefined\<close> and the empty string are
  falsy, and then nothing is sent.
\<close>

definition sendText :: "environment \<Rightarrow> target \<Rightarrow> string option \<Rightarrow> state
    \<Rightarrow> (thrown + nat option) \<times> state" where
  "sendText env tg txt st =
     (case txt of
        None \<Rightarrow> (Inr None, st)
      | Some t \<Rightarrow>
          if t = [] then (Inr None, st)
          else (case send env tg t st of
                  (Inl e, st') \<Rightarrow> (Inl e, st')
                | (Inr sent, st') \<Rightarrow> (Inr (Some sent), st')))"

text \<open>
  Modelled from the spec: \<^verbatim>\<open>channel.awaitMessages\<close> is not in the source file. The spec
  gives the transport \<open>awaitNextMessage(context, predicate, {max:1, time, errors:['time']})\<close>,
  which yields one reply that the predicate accepts or raises the time-out. When nothing
  more arrives the window closes.
\<close>

datatype awaited = Reply message | Rejected thrown

fun awaitMessages :: "(message \<Rightarrow> bool) \<Rightarrow> incoming list \<Rightarrow> awaited \<times> incoming list" where
  "awaitMessages accept [] = (Rejected TimeExpired, [])"
| "awaitMessages accept (Arrives m # rest) =
     (if accept m then (Reply m, rest) else awaitMessages accept rest)"
| "awaitMessages accept (WindowCloses # rest) = (Rejected TimeExpired, rest)"
| "awaitMessages accept (TransportFails e # rest) = (Rejected e, rest)"

section \<open>Prompting: \<^verbatim>\<open>Argument.collect\<close>\<close>

text \<open>The variables of \<^verbatim>\<open>collect\<close> that \<^verbatim>\<open>promptOne\<close> captures and never changes.\<close>

record closure =
  self :: argument
  message :: message
  commandInput :: string
  prompt :: prompt_options
  isInfinite :: bool

text \<open>The filter given to \<^verbatim>\<open>awaitMessages\<close> (lines 432 to 436).\<close>

definition accepts :: "message \<Rightarrow> nat option \<Rightarrow> message \<Rightarrow> bool" where
  "accepts msg sent m =
     (if (case sent of None \<Rightarrow> False | Some i \<Rightarrow> msg_id m = i) then False
      else if author m \<noteq> author msg then False
      else True)"

definition awaitReply :: "closure \<Rightarrow> nat option \<Rightarrow> state \<Rightarrow> awaited \<times> state" where
  "awaitReply c sent st =
     (case awaitMessages (accepts (message c) sent) (inbox st) of
        (r, rest) \<Rightarrow> (r, st\<lparr>inbox := rest, trace := trace st @ [AwaitMessages]\<rparr>))"

text \<open>
  The head of \<^verbatim>\<open>promptOne\<close>, from \<^verbatim>\<open>let sent\<close> to the \<^verbatim>\<open>try\<close> (lines 405 to 429): whether
  to send, which text, which previous input, and the send. In \<open>startTurn\<close>, \<open>Inr sent\<close> is the id of the message
  sent, if one was; \<open>Inl e\<close> is a failure, which is outside the \<^verbatim>\<open>try\<close>.
\<close>

definition shouldSend :: "closure \<Rightarrow> nat \<Rightarrow> state \<Rightarrow> bool" where
  "shouldSend c retryCount st =
     (if retryCount = 1 then \<not> isInfinite c \<or> (isInfinite c \<and> values' st = []) else True)"

definition prompter :: "closure \<Rightarrow> nat \<Rightarrow> text_option option" where
  "prompter c retryCount = (if retryCount = 1 then start (prompt c) else retry (prompt c))"

definition prevInput :: "closure \<Rightarrow> message \<Rightarrow> nat \<Rightarrow> string" where
  "prevInput c prevMessage retryCount =
     (if retryCount \<le> 1 + of_bool (commandInput c \<noteq> []) then commandInput c
      else content prevMessage)"

definition startTurn :: "environment \<Rightarrow> closure \<Rightarrow> message \<Rightarrow> nat \<Rightarrow> state
    \<Rightarrow> (thrown + nat option) \<times> state" where
  "startTurn env c prevMessage retryCount st =
     (if shouldSend c retryCount st then
        (case getText (message c) (args st) (isInfinite c) (prompter c retryCount) retryCount
                prevMessage (prevInput c prevMessage retryCount) of
           Inl e \<Rightarrow> (Inl e, st)
         | Inr startText \<Rightarrow>
             (case sendText env (if commandUtil env then Util else Channel) startText st of
                (Inl e, st') \<Rightarrow> (Inl e, st')
              | (Inr None, st') \<Rightarrow> (Inr None, st')
              | (Inr (Some sent), st') \<Rightarrow>
                  (Inr (Some sent),
                   if commandUtil env then st'\<lparr>shouldEdit := False, lastResponse := Some sent\<rparr>
                   else st')))
      else (Inr None, st))"

fun instanceofError :: "thrown \<Rightarrow> bool" where
  "instanceofError (ErrorObj _) = True"
| "instanceofError _ = False"

text \<open>The \<^verbatim>\<open>catch (err)\<close> block of \<^verbatim>\<open>promptOne\<close> (lines 469 to 480).\<close>

definition catchBlock :: "environment \<Rightarrow> closure \<Rightarrow> message \<Rightarrow> nat \<Rightarrow> thrown \<Rightarrow> state
    \<Rightarrow> (thrown + val) option \<times> state" where
  "catchBlock env c prevMessage retryCount err st =
     (if instanceofError err then (Some (Inl err), st)
      else if err = CommandCancelled then (Some (Inl err), st)
      else
        (case getText (message c) (args st) (isInfinite c) (timeout (prompt c)) retryCount
                prevMessage [] of
           Inl e \<Rightarrow> (Some (Inl e), st)
         | Inr timeoutText \<Rightarrow>
             (case sendText env Channel timeoutText st of
                (Inl e, st') \<Rightarrow> (Some (Inl e), st')
              | (Inr _, st') \<Rightarrow> (Some (Inl CommandCancelled), removePrompt (message c) st'))))"

text \<open>
  The branch of the \<^verbatim>\<open>try\<close> taken on the cancel word (lines 443 to 449). It is inside the
  \<^verbatim>\<open>try\<close>, so what it throws, the cancellation symbol too, goes through the \<^verbatim>\<open>catch\<close>
  block.
\<close>

definition cancelled :: "environment \<Rightarrow> closure \<Rightarrow> message \<Rightarrow> nat \<Rightarrow> message \<Rightarrow> state
    \<Rightarrow> (thrown + val) option \<times> state" where
  "cancelled env c prevMessage retryCount input st =
     (case getText (message c) (args st) (isInfinite c) (cancel (prompt c)) retryCount input [] of
        Inl e \<Rightarrow> catchBlock env c prevMessage retryCount e st
      | Inr cancelText \<Rightarrow>
          (case sendText env Channel cancelText st of
             (Inl e, st') \<Rightarrow> catchBlock env c prevMessage retryCount e st'
           | (Inr _, st') \<Rightarrow>
               catchBlock env c prevMessage retryCount CommandCancelled
                 (removePrompt (message c) st')))"

text \<open>
  \<^verbatim>\<open>input.content.toLowerCase() === word.toLowerCase()\<close>; calling \<^verbatim>\<open>toLowerCase\<close> on a word
  that is not there is a \<^verbatim>\<open>TypeError\<close>.
\<close>

definition sameWord :: "string \<Rightarrow> string option \<Rightarrow> thrown + bool" where
  "sameWord s w =
     (case w of
        None \<Rightarrow> Inl (ErrorObj ''TypeError'')
      | Some w' \<Rightarrow> Inr (toLowerCase s = toLowerCase w'))"

text \<open>
  \<^verbatim>\<open>values.push(parsedValue)\<close>. \<^verbatim>\<open>args[this.id]\<close> is the same array as \<^verbatim>\<open>values\<close>, so the
  new element shows there too.
\<close>

definition push :: "argument \<Rightarrow> val \<Rightarrow> state \<Rightarrow> state" where
  "push this v st =
     st\<lparr>values' := values' st @ [v], args := (args st)(arg_id this \<mapsto> VList (values' st @ [v]))\<rparr>"

text \<open>\<^verbatim>\<open>values.length < limit\<close>; a comparison with \<^verbatim>\<open>undefined\<close> is false.\<close>

definition belowLimit :: "nat \<Rightarrow> enat option \<Rightarrow> bool" where
  "belowLimit n bound = (case bound of None \<Rightarrow> False | Some l \<Rightarrow> enat n < l)"

lemma inbox_sendText: "sendText env tg txt st = (r, st') \<Longrightarrow> inbox st' = inbox st"
  by (auto simp: sendText_def send_def split: option.splits if_splits sum.splits)

lemma inbox_startTurn: "startTurn env c prevMessage retryCount st = (r, st') \<Longrightarrow> inbox st' = inbox st"
  by (auto simp: startTurn_def split: sum.splits if_splits prod.splits option.splits
        dest: inbox_sendText)

lemma awaitMessages_shorter:
  "awaitMessages accept xs = (Reply m, rest) \<Longrightarrow> length rest < length xs"
  by (induction accept xs rule: awaitMessages.induct) (auto split: if_splits)

lemma awaitReply_shorter:
  "awaitReply c sent st = (Reply m, st') \<Longrightarrow> length (inbox st') < length (inbox st)"
  by (auto simp: awaitReply_def split: prod.splits dest: awaitMessages_shorter)

lemma turn_shorter:
  assumes "(Inr sent, st1) = startTurn env c prevMessage retryCount (addPrompt msg st)"
    and "(Reply input, st2) = awaitReply c sent st1"
  shows "length (inbox st2) < length (inbox st)"
proof -
  have "inbox st1 = inbox (addPrompt msg st)"
    using assms(1) inbox_startTurn [of env c prevMessage retryCount "addPrompt msg st" "Inr sent" st1]
    by simp
  moreover have "length (inbox st2) < length (inbox st1)"
    using assms(2) awaitReply_shorter [of c sent st1 input st2] by simp
  ultimately show ?thesis by (simp add: addPrompt_def)
qed

text \<open>
  \<^verbatim>\<open>promptOne(prevMessage, retryCount)\<close> (lines 402 to 481). Every turn takes what it
  awaits from the inbox, so the recursion ends when the inbox does. A
  \<^verbatim>\<open>return promptOne(...)\<close> hands the inner promise on without awaiting it, so the \<^verbatim>\<open>catch\<close>
  of this turn does not see what a later turn throws. The result is \<open>None\<close> when the call never returns, \<open>Some (Inl e)\<close> when it
  rejects with \<open>e\<close>, \<open>Some (Inr v)\<close> when it resolves to \<open>v\<close>.
\<close>

function promptOne :: "environment \<Rightarrow> closure \<Rightarrow> message \<Rightarrow> nat \<Rightarrow> state
    \<Rightarrow> (thrown + val) option \<times> state" where
  "promptOne env c prevMessage retryCount st =
     (case startTurn env c prevMessage retryCount (addPrompt (message c) st) of
        (Inl e, st1) \<Rightarrow> (Some (Inl e), st1)
      | (Inr sent, st1) \<Rightarrow>
          (case awaitReply c sent st1 of
             (Rejected err, st2) \<Rightarrow> catchBlock env c prevMessage retryCount err st2
           | (Reply input, st2) \<Rightarrow>
               (case sameWord (content input) (cancelWord (prompt c)) of
                  Inl e \<Rightarrow> catchBlock env c prevMessage retryCount e st2
                | Inr True \<Rightarrow> cancelled env c prevMessage retryCount input st2
                | Inr False \<Rightarrow>
                    (case (if isInfinite c then sameWord (content input) (stopWord (prompt c))
                           else Inr False) of
                       Inl e \<Rightarrow> catchBlock env c prevMessage retryCount e st2
                     | Inr True \<Rightarrow>
                         if values' st2 = [] then promptOne env c input (retryCount + 1) st2
                         else (Some (Inr (VList (values' st2))), st2)
                     | Inr False \<Rightarrow>
                         (case cast (resolver env) (arg_type (self c)) (content input) input
                                 (args st2) of
                            None \<Rightarrow> (None, st2)
                          | Some (Inl e) \<Rightarrow> catchBlock env c prevMessage retryCount e st2
                          | Some (Inr parsedValue) \<Rightarrow>
                              if nullish parsedValue
                              then promptOne env c input (retryCount + 1) st2
                              else if isInfinite c then
                                (if belowLimit (length (values' (push (self c) parsedValue st2)))
                                      (limit (prompt c))
                                 then promptOne env c (message c) 1 (push (self c) parsedValue st2)
                                 else (Some (Inr (VList (values' (push (self c) parsedValue st2)))),
                                       push (self c) parsedValue st2))
                              else (Some (Inr parsedValue), st2))))))"
  by pat_completeness auto
termination
proof (relation "measure (\<lambda>(env, c, prevMessage, retryCount, st). length (inbox st))")
  show "wf (measure (\<lambda>(env, c, prevMessage, retryCount, st). length (inbox st)))" by simp
qed (auto simp: push_def dest: turn_shorter)

declare promptOne.simps [simp del]

text \<open>
  \<^verbatim>\<open>collect(message, args, commandInput)\<close> (lines 372 to 487), in the parts that follow
  and then as a whole. A \<^verbatim>\<open>commandInput\<close> that is not given and an
  empty one are read alike (\<^verbatim>\<open>Boolean(commandInput)\<close>, \<^verbatim>\<open>commandInput || ''\<close>), so it is a
  string here. The \<^verbatim>\<open>args\<close> object is \<open>args st\<close>.
\<close>

definition matchType :: "argument \<Rightarrow> message \<Rightarrow> prev_args \<Rightarrow> thrown + match_mode" where
  "matchType this msg as =
     (case arg_match this of MatchFunction f \<Rightarrow> f msg as | MatchMode m \<Rightarrow> Inr m)"

definition mergedPrompt :: "environment \<Rightarrow> argument \<Rightarrow> prompt_options" where
  "mergedPrompt env this =
     assign (assign (assign no_options (handlerDefaultPrompt env)) (commandDefaultPrompt env))
       (case arg_prompt this of None \<Rightarrow> no_options | Some p \<Rightarrow> p)"

text \<open>\<^verbatim>\<open>prompt.infinite && (matchType === ArgumentMatches.SEPARATE ? !commandInput : true)\<close>\<close>

definition infiniteMode :: "environment \<Rightarrow> argument \<Rightarrow> match_mode \<Rightarrow> string \<Rightarrow> bool" where
  "infiniteMode env this mt input =
     (infinite' (mergedPrompt env this) = Some True
      \<and> (if mt = SEPARATE then input = [] else True))"

definition collectClosure :: "environment \<Rightarrow> argument \<Rightarrow> message \<Rightarrow> string \<Rightarrow> match_mode
    \<Rightarrow> closure" where
  "collectClosure env this msg input mt =
     \<lparr>self = this, message = msg, commandInput = input, prompt = mergedPrompt env this,
      isInfinite = infiniteMode env this mt input\<rparr>"

text \<open>
  \<^verbatim>\<open>const values = isInfinite ? [] : null; if (isInfinite) args[this.id] = values;\<close>
\<close>

definition collectState :: "argument \<Rightarrow> bool \<Rightarrow> state \<Rightarrow> state" where
  "collectState this isInf st =
     (if isInf then st\<lparr>args := (args st)(arg_id this \<mapsto> VList []), values' := []\<rparr>
      else st\<lparr>values' := []\<rparr>)"

text \<open>
  What follows \<^verbatim>\<open>await promptOne(...)\<close> in \<^verbatim>\<open>collect\<close>. It runs only when the promise
  resolves.
\<close>

definition finish :: "environment \<Rightarrow> message \<Rightarrow> (thrown + val) option \<times> state
    \<Rightarrow> (thrown + val) option \<times> state" where
  "finish env msg r =
     (case r of
        (Some (Inr returnValue), st') \<Rightarrow>
          (Some (Inr returnValue),
           removePrompt msg (if commandUtil env then st'\<lparr>shouldEdit := False\<rparr> else st'))
      | (Some (Inl e), st') \<Rightarrow> (Some (Inl e), st')
      | (None, st') \<Rightarrow> (None, st'))"

definition collect :: "environment \<Rightarrow> argument \<Rightarrow> message \<Rightarrow> string \<Rightarrow> state
    \<Rightarrow> (thrown + val) option \<times> state" where
  "collect env this msg input st =
     (case matchType this msg (args st) of
        Inl e \<Rightarrow> (Some (Inl e), st)
      | Inr mt \<Rightarrow>
          finish env msg
            (promptOne env (collectClosure env this msg input mt) msg (1 + of_bool (input \<noteq> []))
               (collectState this (infiniteMode env this mt input) st)))"

text \<open>
  The turns of a session. A turn that does not end the session ends in a call of
  \<^verbatim>\<open>promptOne\<close> (lines 454, 458 and 463); \<open>nextTurn\<close> gives the previous message, the retry
  count and the state that this call is made with, and \<open>None\<close> for a turn that ends the
  session or never returns. \<open>laterTurn env c n\<close> follows \<open>n\<close> such calls.
\<close>

definition nextTurn :: "environment \<Rightarrow> closure \<Rightarrow> message \<times> nat \<times> state
    \<Rightarrow> (message \<times> nat \<times> state) option" where
  "nextTurn env c t =
     (case t of (prevMessage, retryCount, st) \<Rightarrow>
      (case startTurn env c prevMessage retryCount (addPrompt (message c) st) of
        (Inl e, st1) \<Rightarrow> None
      | (Inr sent, st1) \<Rightarrow>
          (case awaitReply c sent st1 of
             (Rejected err, st2) \<Rightarrow> None
           | (Reply input, st2) \<Rightarrow>
               (case sameWord (content input) (cancelWord (prompt c)) of
                  Inl e \<Rightarrow> None
                | Inr True \<Rightarrow> None
                | Inr False \<Rightarrow>
                    (case (if isInfinite c then sameWord (content input) (stopWord (prompt c))
                           else Inr False) of
                       Inl e \<Rightarrow> None
                     | Inr True \<Rightarrow>
                         if values' st2 = [] then Some (input, retryCount + 1, st2) else None
                     | Inr False \<Rightarrow>
                         (case cast (resolver env) (arg_type (self c)) (content input) input
                                 (args st2) of
                            None \<Rightarrow> None
                          | Some (Inl e) \<Rightarrow> None
                          | Some (Inr parsedValue) \<Rightarrow>
                              if nullish parsedValue then Some (input, retryCount + 1, st2)
                              else if isInfinite c
                                      \<and> belowLimit (length (values' (push (self c) parsedValue st2)))
                                            (limit (prompt c))
                              then Some (message c, 1, push (self c) parsedValue st2)
                              else None))))))"

fun laterTurn :: "environment \<Rightarrow> closure \<Rightarrow> nat \<Rightarrow> message \<times> nat \<times> state
    \<Rightarrow> (message \<times> nat \<times> state) option" where
  "laterTurn env c 0 t = Some t"
| "laterTurn env c (Suc n) t =
     (case nextTurn env c t of None \<Rightarrow> None | Some t' \<Rightarrow> laterTurn env c n t')"

section \<open>The entry point: \<^verbatim>\<open>Argument.process\<close>\<close>

text \<open>
  \<^verbatim>\<open>process(word, message, args)\<close> (lines 284 to 304). \<^verbatim>\<open>this.prompt.optional\<close> is read from
  the argument's own prompt options, not from the merged ones.
\<close>

definition process :: "environment \<Rightarrow> argument \<Rightarrow> string \<Rightarrow> message \<Rightarrow> state
    \<Rightarrow> (thrown + val) option \<times> state" where
  "process env this word0 msg st =
     (let word = trim word0 in
      if word = [] \<and> (case arg_prompt this of None \<Rightarrow> False | Some p \<Rightarrow> optional p = Some True)
      then (Some (arg_default this msg (args st)), st)
      else
        (case cast (resolver env) (arg_type this) word msg (args st) of
           None \<Rightarrow> (None, st)
         | Some (Inl e) \<Rightarrow> (Some (Inl e), st)
         | Some (Inr res) \<Rightarrow>
             if nullish res then
               (if arg_prompt this \<noteq> None then collect env this msg word st
                else (Some (arg_default this msg (args st)), st))
             else (Some (Inr res), st)))"

section \<open>What the specification says\<close>

text \<open>
  In the specification's words: a token matches a candidate when it equals it without
  regard to case, or equals any alias of a candidate that is an array of aliases; the
  canonical value of a candidate is the string itself, or the first element of the array.
\<close>

definition choice_matches :: "choice \<Rightarrow> string \<Rightarrow> bool" where
  "choice_matches c t =
     (case c of
        Single s \<Rightarrow> toLowerCase s = toLowerCase t
      | Aliases als \<Rightarrow> list_ex (\<lambda>a. toLowerCase a = toLowerCase t) als)"

definition canonical :: "choice \<Rightarrow> val" where
  "canonical c =
     (case c of
        Single s \<Rightarrow> VStr s
      | Aliases [] \<Rightarrow> VUndefined
      | Aliases (a # _) \<Rightarrow> VStr a)"

text \<open>
  In the specification's words: empty or falsy resolved text suppresses sending. These are
  the \<open>Send\<close> events that a resolved text leaves in the trace.
\<close>

definition sendEvents :: "target \<Rightarrow> string option \<Rightarrow> event list" where
  "sendEvents tg txt = (case txt of None \<Rightarrow> [] | Some t \<Rightarrow> if t = [] then [] else [Send tg t])"

text \<open>
  In the specification's words: every non-overlapping match in input order. The matches
  of a pattern in a string from index \<open>i\<close> on, from left to right, each one starting where
  the one before it ended, or one index further when that one was empty.
\<close>

function all_matches :: "regexp \<Rightarrow> string \<Rightarrow> nat \<Rightarrow> val list" where
  "all_matches rx s i =
     (if length s < i then []
      else case search rx s i of
             None \<Rightarrow> []
           | Some (b, len) \<Rightarrow>
               VExec (substring s b len) b # all_matches rx s (if len = 0 then Suc b else b + len))"
  by pat_completeness auto
termination
proof (relation "measure (\<lambda>(rx, s, i). Suc (length s) - i)")
  show "wf (measure (\<lambda>(rx, s, i). Suc (length s) - i))" by simp
next
  fix rx :: regexp and s :: string and i :: nat and x2 :: "nat \<times> nat" and b len :: nat
  assume "\<not> length s < i" and "search rx s i = Some x2" and "(b, len) = x2"
  then have "i \<le> b \<and> b \<le> length s"
    using search_bounds [of rx s i b len] by simp
  then show "((rx, s, if len = 0 then Suc b else b + len), rx, s, i)
               \<in> measure (\<lambda>(rx, s, i). Suc (length s) - i)"
    by auto
qed

declare all_matches.simps [simp del]

section \<open>Concrete inputs\<close>

text \<open>The pattern \<^verbatim>\<open>/a*/g\<close>: at every index it matches the run of \<^verbatim>\<open>a\<close>s that starts there.\<close>

definition a_star_global :: regexp where
  "a_star_global =
     \<lparr>matcher = (\<lambda>s b. Some (length (takeWhile (\<lambda>ch. ch = CHR ''a'') (drop b s)))),
      global = True\<rparr>"

text \<open>The array type \<^verbatim>\<open>[['yes', 'y'], ['yep', 'y'], 'no']\<close>.\<close>

definition yes_yep_no :: "choice list" where
  "yes_yep_no = [Aliases [''yes'', ''y''], Aliases [''yep'', ''y''], Single ''no'']"

text \<open>The message that calls the command, and a reply of the same author.\<close>

definition user_message :: message where
  "user_message = \<lparr>msg_id = 1, author = 7, channel = 3, content = ''!pick''\<rparr>"

definition reply :: "nat \<Rightarrow> string \<Rightarrow> message" where
  "reply i txt = \<lparr>msg_id = i, author = 7, channel = 3, content = txt\<rparr>"

text \<open>
  A handler whose default prompt has the documented defaults and no texts, a command with
  no default prompt, no \<^verbatim>\<open>commandUtil\<close>, no named types, and a transport on which every
  \<^verbatim>\<open>send\<close> succeeds.
\<close>

definition handlerDefaults :: prompt_options where
  "handlerDefaults = no_options\<lparr>retries := Some 1, time := Some 30000, cancelWord := Some ''cancel'',
     stopWord := Some ''stop'', optional := Some False, infinite' := Some False, limit := Some \<infinity>\<rparr>"

definition env0 :: environment where
  "env0 = \<lparr>handlerDefaultPrompt = handlerDefaults, commandDefaultPrompt = no_options,
     commandUtil = False, resolver = (\<lambda>_. None), deliver = (\<lambda>tr tg txt. Inr (100 + length tr))\<rparr>"

text \<open>The same, but the transport refuses the text \<^verbatim>\<open>Cancelled.\<close>\<close>

definition env_cancel_fails :: environment where
  "env_cancel_fails = env0\<lparr>deliver := (\<lambda>tr tg t. if t = ''Cancelled.'' then Inl (ErrorObj ''Missing Permissions'') else Inr (100 + length tr))\<rparr>"

text \<open>The same as \<open>env0\<close>, but the handler's default prompt has no cancel word and no stop word.\<close>

definition env_no_words :: environment where
  "env_no_words = env0\<lparr>handlerDefaultPrompt := no_options\<rparr>"

text \<open>The state before a command runs, with the messages that are going to arrive.\<close>

definition state0 :: "incoming list \<Rightarrow> state" where
  "state0 inb = \<lparr>prompts = {}, inbox = inb, trace = [], shouldEdit = True, lastResponse = None,
     args = Map.empty, values' = []\<rparr>"

text \<open>
  An argument with the prompt \<^verbatim>\<open>{ infinite: true, limit: 3, start: 'Pick three.' }\<close> and the
  type \<^verbatim>\<open>'string'\<close>, which no registry knows, so that \<^verbatim>\<open>cast\<close> returns a word that is not
  empty as it is.
\<close>

definition pick_three :: argument where
  "pick_three = \<lparr>arg_id = ''picks'', arg_match = MatchMode WORD, arg_type = TypeName ''string'',
     arg_prompt = Some (no_options\<lparr>infinite' := Some True, limit := Some 3,
        start := Some (Static (Str ''Pick three.''))\<rparr>),
     arg_default = (\<lambda>_ _. Inr (VStr []))\<rparr>"

definition pick_closure :: closure where
  "pick_closure = collectClosure env0 pick_three user_message [] WORD"

definition four_replies :: "incoming list" where
  "four_replies = [Arrives (reply 2 ''red''), Arrives (reply 3 ''green''), Arrives (reply 4 ''blue''),
     Arrives (reply 5 ''black'')]"

text \<open>
  An infinite prompt whose stop word is also its cancel word:
  \<^verbatim>\<open>{ infinite: true, stopWord: 'done', cancelWord: 'done' }\<close>.
\<close>

definition pick_done :: argument where
  "pick_done =
     \<lparr>arg_id = ''picks'', arg_match = MatchMode WORD, arg_type = TypeName ''string'',
      arg_prompt = Some (no_options\<lparr>infinite' := Some True, stopWord := Some ''done'', cancelWord := Some ''done''\<rparr>),
      arg_default = (\<lambda>_ _. Inr (VStr []))\<rparr>"

text \<open>
  An infinite prompt whose type function and text functions read the values accumulated so
  far from \<^verbatim>\<open>args.tally\<close>: the type function returns \<^verbatim>\<open>null\<close> on the word \<^verbatim>\<open>bad\<close> and the
  number of accumulated values on every other word, and each text function returns its label
  followed by one \<^verbatim>\<open>*\<close> for each accumulated value. The prompt is
  \<^verbatim>\<open>{ infinite: true, limit: 3, start, retry, timeout, cancel }\<close>.
\<close>

definition stars :: "string \<Rightarrow> text_option" where
  "stars label =
     Generator (\<lambda>m as d. case as ''tally'' of
        Some (VList vs) \<Rightarrow> Inr (Some (Str (label @ replicate (length vs) (CHR ''*''))))
      | _ \<Rightarrow> Inr (Some (Str (label @ ''?''))))"

definition tally :: argument where
  "tally =
     \<lparr>arg_id = ''tally'', arg_match = MatchMode WORD,
      arg_type = TypeFunction (\<lambda>w m as. if w = ''bad'' then Inr VNull
                    else case as ''tally'' of
                      Some (VList vs) \<Rightarrow> Inr (VNum (int (length vs))) | _ \<Rightarrow> Inr VNull),
      arg_prompt = Some (no_options\<lparr>infinite' := Some True, limit := Some 3,
         start := Some (stars ''start''), retry := Some (stars ''retry''),
         timeout := Some (stars ''timeout''), cancel := Some (stars ''cancel'')\<rparr>),
      arg_default = (\<lambda>_ _. Inr (VStr []))\<rparr>"

definition tally_closure :: closure where
  "tally_closure = collectClosure env0 tally user_message [] WORD"

text \<open>
  Words with letters outside ASCII, named here without their accents: the fourth letter of
  \<open>arret\<close> is an e with a circumflex (the code unit 234, its capital 202), and the last letter
  of \<open>termine\<close> and the first and last letter of \<open>ete\<close> are an e with an acute accent (233, its
  capital 201). \<open>ARRET\<close>, \<open>TERMINE\<close> and \<open>ETE\<close> are the same words in capitals. The infinite
  prompt \<open>pick_french\<close> has the first as its cancel word and the second as its stop word:
  \<^verbatim>\<open>{ infinite: true, limit: 3, cancelWord, stopWord, start: 'Pick three.' }\<close>.
\<close>

definition arret :: string where
  "arret = [CHR ''a'', CHR ''r'', CHR ''r'', CHR 0xEA, CHR ''t'']"

definition ARRET :: string where
  "ARRET = [CHR ''A'', CHR ''R'', CHR ''R'', CHR 0xCA, CHR ''T'']"

definition termine :: string where
  "termine = [CHR ''t'', CHR ''e'', CHR ''r'', CHR ''m'', CHR ''i'', CHR ''n'', CHR 0xE9]"

definition TERMINE :: string where
  "TERMINE = [CHR ''T'', CHR ''E'', CHR ''R'', CHR ''M'', CHR ''I'', CHR ''N'', CHR 0xC9]"

definition ete :: string where
  "ete = [CHR 0xE9, CHR ''t'', CHR 0xE9]"

definition ETE :: string where
  "ETE = [CHR 0xC9, CHR ''T'', CHR 0xC9]"

definition pick_french :: argument where
  "pick_french = \<lparr>arg_id = ''picks'', arg_match = MatchMode WORD, arg_type = TypeName ''string'',
     arg_prompt = Some (no_options\<lparr>infinite' := Some True, limit := Some 3,
        cancelWord := Some arret, stopWord := Some termine,
        start := Some (Static (Str ''Pick three.''))\<rparr>),
     arg_default = (\<lambda>_ _. Inr (VStr []))\<rparr>"

definition french_closure :: closure where
  "french_closure = collectClosure env0 pick_french user_message [] WORD"

text \<open>
  An argument with the prompt \<^verbatim>\<open>{ optional: true, start: 'Which colour?' }\<close> and the default
  value \<^verbatim>\<open>'none'\<close>.
\<close>

definition optional_colour :: argument where
  "optional_colour =
     \<lparr>arg_id = ''colour'', arg_match = MatchMode WORD, arg_type = TypeName ''string'',
      arg_prompt = Some (no_options\<lparr>optional := Some True,
         start := Some (Static (Str ''Which colour?''))\<rparr>),
      arg_default = (\<lambda>_ _. Inr (VStr ''none''))\<rparr>"

text \<open>
  An argument of type \<^verbatim>\<open>['yes', 'no']\<close> with the prompt
  \<^verbatim>\<open>{ retries: 1, start: 'yes or no?', retry: (m, a, d) => 'retry ' + '!'.repeat(d.retries),
  cancel: 'Cancelled.' }\<close>, and three replies that are neither \<^verbatim>\<open>yes\<close> nor \<^verbatim>\<open>no\<close>.
\<close>

definition yes_no :: argument where
  "yes_no =
     \<lparr>arg_id = ''answer'', arg_match = MatchMode WORD,
      arg_type = Choices [Single ''yes'', Single ''no''],
      arg_prompt = Some (no_options\<lparr>retries := Some 1,
         start := Some (Static (Str ''yes or no?'')),
         retry := Some (Generator (\<lambda>m as d. Inr (Some (Str (''retry '' @ replicate (d_retries d) (CHR ''!'')))))),
         cancel := Some (Static (Str ''Cancelled.''))\<rparr>),
      arg_default = (\<lambda>_ _. Inr (VStr []))\<rparr>"

definition yes_no_closure :: closure where
  "yes_no_closure = collectClosure env0 yes_no user_message [] WORD"

definition three_wrong :: "incoming list" where
  "three_wrong = [Arrives (reply 2 ''a''), Arrives (reply 3 ''b''), Arrives (reply 4 ''c'')]"

text \<open>
  An argument whose type function throws the string \<^verbatim>\<open>'boom'\<close> on the word \<^verbatim>\<open>boom\<close> and an
  \<^verbatim>\<open>Error\<close> on the word \<^verbatim>\<open>crash\<close> and returns \<^verbatim>\<open>null\<close> on every other word, with the prompt
  \<^verbatim>\<open>{ start: 'Say it.', retry, timeout: 'Too slow.' }\<close>, where the function \<^verbatim>\<open>retry\<close> throws the
  string \<^verbatim>\<open>'oops'\<close> when the previous input is \<^verbatim>\<open>oops\<close> and returns \<^verbatim>\<open>'Again.'\<close> otherwise.
\<close>

definition fragile :: argument where
  "fragile =
     \<lparr>arg_id = ''word'', arg_match = MatchMode WORD,
      arg_type = TypeFunction (\<lambda>w m as. if w = ''boom'' then Inl (NonError ''boom'')
                        else if w = ''crash'' then Inl (ErrorObj ''crash'') else Inr VNull),
      arg_prompt = Some (no_options\<lparr>start := Some (Static (Str ''Say it.'')),
         retry := Some (Generator (\<lambda>m as d. if d_word d = ''oops'' then Inl (NonError ''oops'')
                                   else Inr (Some (Str ''Again.'')))),
         timeout := Some (Static (Str ''Too slow.''))\<rparr>),
      arg_default = (\<lambda>_ _. Inr (VStr []))\<rparr>"

definition fragile_closure :: closure where
  "fragile_closure = collectClosure env0 fragile user_message [] WORD"

text \<open>
  An argument all of whose prompt texts are functions that return the array
  \<^verbatim>\<open>[label, data.word]\<close>; it is prompted after the word \<^verbatim>\<open>maybe\<close> failed to cast.
\<close>

definition echo :: "string \<Rightarrow> text_option" where
  "echo label = Generator (\<lambda>m as d. Inr (Some (Lines [label, d_word d])))"

definition echoing :: argument where
  "echoing =
     \<lparr>arg_id = ''answer'', arg_match = MatchMode WORD,
      arg_type = Choices [Single ''yes'', Single ''no''],
      arg_prompt = Some (no_options\<lparr>start := Some (echo ''start''), retry := Some (echo ''retry''),
         timeout := Some (echo ''timeout''), ended := Some (echo ''ended''), cancel := Some (echo ''cancel'')\<rparr>),
      arg_default = (\<lambda>_ _. Inr (VStr []))\<rparr>"

definition echoing_closure :: closure where
  "echoing_closure = collectClosure env0 echoing user_message ''maybe'' WORD"

section \<open>Evaluating the concrete inputs\<close>

lemmas engine_defs =
  collect_def finish_def collectClosure_def collectState_def infiniteMode_def matchType_def
  mergedPrompt_def assign_def override_def no_options_def promptOne.simps startTurn_def
  shouldSend_def prompter_def prevInput_def addPrompt_def removePrompt_def awaitReply_def
  accepts_def getText_def sendText_def send_def sameWord_def catchBlock_def cancelled_def
  push_def belowLimit_def nullish_def castFunction_def

lemmas turn_defs =
  startTurn_def shouldSend_def prompter_def prevInput_def addPrompt_def awaitReply_def
  accepts_def getText_def sendText_def send_def

lemmas input_defs =
  env0_def state0_def user_message_def reply_def handlerDefaults_def

lemma lower_examples:
  "toLowerCase ''Y'' = ''y''" "toLowerCase ''y'' = ''y''" "toLowerCase ''yes'' = ''yes''"
  "toLowerCase ''yep'' = ''yep''" "toLowerCase ''no'' = ''no''" "toLowerCase ''NO'' = ''no''"
  "toLowerCase ''maybe'' = ''maybe''"
  by code_simp+

lemma lower_words:
  "toLowerCase ''red'' = ''red''" "toLowerCase ''green'' = ''green''" "toLowerCase ''blue'' = ''blue''"
  "toLowerCase ''cancel'' = ''cancel''" "toLowerCase ''stop'' = ''stop''"
  by code_simp+

lemma lower_replies:
  "toLowerCase ''a'' = ''a''" "toLowerCase ''b'' = ''b''" "toLowerCase ''c'' = ''c''"
  "toLowerCase ''x'' = ''x''" "toLowerCase ''y'' = ''y''" "toLowerCase ''z'' = ''z''"
  "toLowerCase ''yes'' = ''yes''" "toLowerCase ''no'' = ''no''"
  "toLowerCase ''red'' = ''red''" "toLowerCase ''green'' = ''green''"
  "toLowerCase ''cancel'' = ''cancel''" "toLowerCase ''Cancel'' = ''cancel''"
  "toLowerCase ''CANCEL'' = ''cancel''"
  "toLowerCase ''stop'' = ''stop''" "toLowerCase ''Stop'' = ''stop''" "toLowerCase ''STOP'' = ''stop''"
  "toLowerCase ''done'' = ''done''" "toLowerCase ''maybe'' = ''maybe''"
  "toLowerCase ''boom'' = ''boom''" "toLowerCase ''crash'' = ''crash''" "toLowerCase ''hm'' = ''hm''"
  "toLowerCase ''perhaps'' = ''perhaps''" "toLowerCase ''dunno'' = ''dunno''"
  by code_simp+

lemma trim_blank: "trim ''  '' = []" by code_simp

lemma lower_more:
  "toLowerCase ''oops'' = ''oops''" "toLowerCase ''bad'' = ''bad''"
  by code_simp+

text \<open>
  The capitals of Latin-1 are lowered too; the multiplication sign, the sharp s, the
  division sign and the y with diaeresis (215, 223, 247 and 255) stay.
\<close>

lemma lower_latin1:
  "toLowerCase ARRET = arret" "toLowerCase arret = arret"
  "toLowerCase TERMINE = termine" "toLowerCase termine = termine"
  "toLowerCase ETE = ete" "toLowerCase ete = ete"
  "toLowerCase [CHR 0xD7, CHR 0xDF, CHR 0xF7, CHR 0xFF] = [CHR 0xD7, CHR 0xDF, CHR 0xF7, CHR 0xFF]"
  by code_simp+

lemma latin1_distinct:
  "arret \<noteq> termine" "termine \<noteq> arret" "ARRET \<noteq> arret" "TERMINE \<noteq> termine" "ETE \<noteq> ete"
  "ete \<noteq> arret" "ete \<noteq> termine" "''red'' \<noteq> arret" "''red'' \<noteq> termine" "ETE \<noteq> []" "ete \<noteq> []"
  by (simp_all add: arret_def termine_def ARRET_def TERMINE_def ETE_def ete_def)

lemma pick_closure_simps:
  "isInfinite pick_closure" "message pick_closure = user_message" "self pick_closure = pick_three"
  "commandInput pick_closure = []"
  "limit (prompt pick_closure) = Some 3" "cancelWord (prompt pick_closure) = Some ''cancel''"
  "stopWord (prompt pick_closure) = Some ''stop''"
  "start (prompt pick_closure) = Some (Static (Str ''Pick three.''))"
  "retry (prompt pick_closure) = None"
  "timeout (prompt pick_closure) = None"
  "cancel (prompt pick_closure) = None"
  by (simp_all add: pick_closure_def collectClosure_def infiniteMode_def mergedPrompt_def assign_def
      override_def no_options_def env0_def pick_three_def handlerDefaults_def)

lemma yes_no_closure_simps:
  "isInfinite yes_no_closure = False" "message yes_no_closure = user_message"
  "self yes_no_closure = yes_no" "commandInput yes_no_closure = []"
  "cancelWord (prompt yes_no_closure) = Some ''cancel''"
  "start (prompt yes_no_closure) = Some (Static (Str ''yes or no?''))"
  "cancel (prompt yes_no_closure) = Some (Static (Str ''Cancelled.''))"
  "timeout (prompt yes_no_closure) = None"
  by (simp_all add: yes_no_closure_def collectClosure_def infiniteMode_def mergedPrompt_def
      assign_def override_def no_options_def env0_def yes_no_def handlerDefaults_def)

lemma fragile_closure_simps:
  "isInfinite fragile_closure = False" "message fragile_closure = user_message"
  "self fragile_closure = fragile" "commandInput fragile_closure = []"
  "cancelWord (prompt fragile_closure) = Some ''cancel''"
  "start (prompt fragile_closure) = Some (Static (Str ''Say it.''))"
  "retry (prompt fragile_closure)
     = Some (Generator (\<lambda>m as d. if d_word d = ''oops'' then Inl (NonError ''oops'')
                        else Inr (Some (Str ''Again.''))))"
  "timeout (prompt fragile_closure) = Some (Static (Str ''Too slow.''))"
  by (simp_all add: fragile_closure_def collectClosure_def infiniteMode_def mergedPrompt_def
      assign_def override_def no_options_def env0_def fragile_def handlerDefaults_def)

lemma echoing_closure_simps:
  "isInfinite echoing_closure = False" "message echoing_closure = user_message"
  "self echoing_closure = echoing" "commandInput echoing_closure = ''maybe''"
  "cancelWord (prompt echoing_closure) = Some ''cancel''"
  "start (prompt echoing_closure) = Some (echo ''start'')"
  "retry (prompt echoing_closure) = Some (echo ''retry'')"
  "timeout (prompt echoing_closure) = Some (echo ''timeout'')"
  "cancel (prompt echoing_closure) = Some (echo ''cancel'')"
  by (simp_all add: echoing_closure_def collectClosure_def infiniteMode_def mergedPrompt_def
      assign_def override_def no_options_def env0_def echoing_def handlerDefaults_def)

lemma pick_three_mode: "matchType pick_three user_message as = Inr WORD"
  "infiniteMode env0 pick_three WORD []"
  using pick_closure_simps(1)
  by (simp_all add: matchType_def pick_three_def pick_closure_def collectClosure_def)

lemma fragile_mode: "matchType fragile user_message as = Inr WORD"
  by (simp add: matchType_def fragile_def)

lemma fragile_start:
  "collectState fragile (infiniteMode env0 fragile WORD []) (state0 inb) = state0 inb"
  using fragile_closure_simps(1)
  by (simp add: fragile_closure_def collectClosure_def collectState_def state0_def)

lemma tally_closure_simps:
  "isInfinite tally_closure" "message tally_closure = user_message" "self tally_closure = tally"
  "commandInput tally_closure = []"
  "limit (prompt tally_closure) = Some 3" "cancelWord (prompt tally_closure) = Some ''cancel''"
  "stopWord (prompt tally_closure) = Some ''stop''"
  "start (prompt tally_closure) = Some (stars ''start'')"
  "retry (prompt tally_closure) = Some (stars ''retry'')"
  "timeout (prompt tally_closure) = Some (stars ''timeout'')"
  "cancel (prompt tally_closure) = Some (stars ''cancel'')"
  by (simp_all add: tally_closure_def collectClosure_def infiniteMode_def mergedPrompt_def
      assign_def override_def no_options_def env0_def tally_def handlerDefaults_def)

lemma tally_mode: "matchType tally user_message as = Inr WORD"
  "infiniteMode env0 tally WORD []"
  by (simp_all add: matchType_def tally_def infiniteMode_def mergedPrompt_def assign_def
      override_def no_options_def env0_def handlerDefaults_def)

lemma tally_id: "arg_id tally = ''tally''"
  by (simp add: tally_def)

lemma tally_start: "collectState tally True (state0 inb)
   = \<lparr>prompts = {}, inbox = inb, trace = [], shouldEdit = True, lastResponse = None,
      args = [''tally'' \<mapsto> VList []], values' = []\<rparr>"
  by (simp add: collectState_def state0_def tally_def)

lemma french_closure_simps:
  "isInfinite french_closure" "message french_closure = user_message"
  "self french_closure = pick_french" "commandInput french_closure = []"
  "limit (prompt french_closure) = Some 3" "cancelWord (prompt french_closure) = Some arret"
  "stopWord (prompt french_closure) = Some termine"
  "start (prompt french_closure) = Some (Static (Str ''Pick three.''))"
  "retry (prompt french_closure) = None" "cancel (prompt french_closure) = None"
  "timeout (prompt french_closure) = None"
  by (simp_all add: french_closure_def collectClosure_def infiniteMode_def mergedPrompt_def
      assign_def override_def no_options_def env0_def pick_french_def handlerDefaults_def)

section \<open>Casting\<close>

lemma castChoices_find:
  "castChoices entries t =
     (case find (\<lambda>c. choice_matches c t) entries of None \<Rightarrow> VNull | Some c \<Rightarrow> canonical c)"
  by (induction entries t rule: castChoices.induct)
     (auto simp: choice_matches_def canonical_def split: list.splits)

lemma choice_matches_case: "toLowerCase t' = toLowerCase t \<Longrightarrow> choice_matches c t' = choice_matches c t"
  by (simp add: choice_matches_def split: choice.splits)

text \<open>
  C2, as the claim states it, fails. The token \<^verbatim>\<open>Y\<close> equals, without regard to case, the
  alias \<^verbatim>\<open>y\<close> of the candidate \<^verbatim>\<open>['yep', 'y']\<close> of the type
  \<^verbatim>\<open>[['yes', 'y'], ['yep', 'y'], 'no']\<close>, and \<^verbatim>\<open>cast\<close> does not return that candidate's
  canonical value \<^verbatim>\<open>yep\<close>: the loop returns at the first candidate that matches, which is
  \<^verbatim>\<open>['yes', 'y']\<close>.
\<close>

theorem cast_choices_counterexample:
  "Aliases [''yep'', ''y''] \<in> set yes_yep_no
   \<and> choice_matches (Aliases [''yep'', ''y'']) ''Y''
   \<and> canonical (Aliases [''yep'', ''y'']) = VStr ''yep''
   \<and> cast (resolver env0) (Choices yes_yep_no) ''Y'' user_message (args (state0 []))
       = Some (Inr (VStr ''yes''))"
  by (simp add: yes_yep_no_def choice_matches_def canonical_def lower_examples)

text \<open>
  C2, amended: for every token \<open>t\<close> and every array type, \<^verbatim>\<open>cast\<close> returns the canonical
  value of the first candidate, in the order of the array, that \<open>t\<close> matches without
  regard to case, and \<^verbatim>\<open>null\<close> when \<open>t\<close> matches no candidate; a token \<open>t'\<close> that differs
  from \<open>t\<close> only in case gets the same result.
\<close>

theorem cast_choices_first_match:
  "cast reg (Choices entries) t msg as =
     Some (Inr (case find (\<lambda>c. choice_matches c t) entries of
                  None \<Rightarrow> VNull
                | Some c \<Rightarrow> canonical c))
   \<and> (toLowerCase t' = toLowerCase t \<longrightarrow>
        cast reg (Choices entries) t' msg as = cast reg (Choices entries) t msg as)"
proof -
  have "toLowerCase t' = toLowerCase t \<Longrightarrow>
          find (\<lambda>c. choice_matches c t') entries = find (\<lambda>c. choice_matches c t) entries"
    using choice_matches_case [of t' t] by presburger
  then show ?thesis
    by (simp add: castChoices_find)
qed

text \<open>
  At the tokens \<^verbatim>\<open>Y\<close>, \<^verbatim>\<open>NO\<close> and \<^verbatim>\<open>maybe\<close> and the type above, and at the token \<open>ETE\<close> (the
  capitals of \<open>ete\<close>, whose first and last letter are not in ASCII) and the type \<open>[ete]\<close>.
\<close>

theorem cast_choices_first_match_witness:
  "cast (\<lambda>_. None) (Choices yes_yep_no) ''Y'' user_message Map.empty = Some (Inr (VStr ''yes''))
   \<and> cast (\<lambda>_. None) (Choices yes_yep_no) ''NO'' user_message Map.empty = Some (Inr (VStr ''no''))
   \<and> cast (\<lambda>_. None) (Choices yes_yep_no) ''maybe'' user_message Map.empty = Some (Inr VNull)
   \<and> cast (\<lambda>_. None) (Choices yes_yep_no) ''NO'' user_message Map.empty
       = cast (\<lambda>_. None) (Choices yes_yep_no) ''no'' user_message Map.empty
   \<and> cast (\<lambda>_. None) (Choices [Single ete]) ETE user_message Map.empty = Some (Inr (VStr ete))
   \<and> cast (\<lambda>_. None) (Choices [Single ete]) ETE user_message Map.empty
       = cast (\<lambda>_. None) (Choices [Single ete]) ete user_message Map.empty"
proof -
  have plain:
    "cast (\<lambda>_. None) (Choices yes_yep_no) ''Y'' user_message Map.empty = Some (Inr (VStr ''yes''))
     \<and> cast (\<lambda>_. None) (Choices yes_yep_no) ''NO'' user_message Map.empty = Some (Inr (VStr ''no''))
     \<and> cast (\<lambda>_. None) (Choices yes_yep_no) ''maybe'' user_message Map.empty = Some (Inr VNull)
     \<and> cast (\<lambda>_. None) (Choices yes_yep_no) ''NO'' user_message Map.empty
         = cast (\<lambda>_. None) (Choices yes_yep_no) ''no'' user_message Map.empty"
    using cast_choices_first_match [of "\<lambda>_. None" yes_yep_no "''no''" user_message Map.empty "''NO''"]
      cast_choices_first_match [of "\<lambda>_. None" yes_yep_no "''Y''" user_message Map.empty "''y''"]
      cast_choices_first_match [of "\<lambda>_. None" yes_yep_no "''maybe''" user_message Map.empty "''maybe''"]
    by (simp add: yes_yep_no_def choice_matches_def canonical_def lower_examples)
  have latin:
    "cast (\<lambda>_. None) (Choices [Single ete]) ETE user_message Map.empty = Some (Inr (VStr ete))
     \<and> cast (\<lambda>_. None) (Choices [Single ete]) ETE user_message Map.empty
         = cast (\<lambda>_. None) (Choices [Single ete]) ete user_message Map.empty"
    using cast_choices_first_match [of "\<lambda>_. None" "[Single ete]" ete user_message Map.empty ETE]
      cast_choices_first_match [of "\<lambda>_. None" "[Single ete]" ETE user_message Map.empty ETE]
    by (simp add: choice_matches_def canonical_def lower_latin1)
  from plain latin show ?thesis by blast
qed

lemma exec_loop_stuck_aux:
  assumes "exec_loop rx word lastIndex ms = Some y"
  shows "\<forall>m. exec rx word lastIndex \<noteq> (Some m, lastIndex)"
proof (rule exec_loop.raw_induct
    [where P = "\<lambda>rx word lastIndex ms y. \<forall>m. exec rx word lastIndex \<noteq> (Some m, lastIndex)",
     OF _ assms])
  fix f rx word lastIndex ms y
  assume IH: "\<And>rx word lastIndex ms y. f rx word lastIndex ms = Some y
                \<Longrightarrow> \<forall>m. exec rx word lastIndex \<noteq> (Some m, lastIndex)"
    and body: "(case exec rx word lastIndex of
                  (None, x) \<Rightarrow> Some ms
                | (Some matched, x) \<Rightarrow> f rx word x (ms @ [matched])) = Some y"
  show "\<forall>m. exec rx word lastIndex \<noteq> (Some m, lastIndex)"
  proof (intro allI notI)
    fix m
    assume stuck: "exec rx word lastIndex = (Some m, lastIndex)"
    with body have "f rx word lastIndex (ms @ [m]) = Some y" by simp
    from IH [OF this] stuck show False by simp
  qed
qed

text \<open>
  An \<^verbatim>\<open>exec\<close> that matches and leaves \<^verbatim>\<open>lastIndex\<close> where it was (an empty match at
  \<^verbatim>\<open>lastIndex\<close>) is repeated for ever.
\<close>

lemma exec_loop_stuck:
  "exec rx word lastIndex = (Some m, lastIndex) \<Longrightarrow> exec_loop rx word lastIndex ms = None"
  using exec_loop_stuck_aux [of rx word lastIndex ms]
  by (cases "exec_loop rx word lastIndex ms") auto

lemma exec_a_star_global: "exec a_star_global ''b'' 0 = (Some (VExec [] 0), 0)"
  by code_simp

lemma string_match_a_star_global: "string_match ''b'' a_star_global = VList [VStr [], VStr []]"
  by code_simp

text \<open>
  Where \<^verbatim>\<open>cast\<close> does what C3 says: when the pattern does not match, when it is not global,
  and when it is global and none of its matches in the word is empty.
\<close>

lemma castPattern_no_match:
  "string_match word rx = VNull \<Longrightarrow> castPattern rx word = Some (Inr VNull)"
  by (simp add: castPattern_def)

lemma castPattern_not_global:
  "\<not> global rx \<Longrightarrow> string_match word rx \<noteq> VNull \<Longrightarrow>
     castPattern rx word
       = Some (Inr (VObj [(''match'', string_match word rx), (''matches'', VList [])]))"
  by (simp add: castPattern_def Let_def)

lemma exec_loop_collects:
  assumes "global rx" and "\<And>j b len. search rx s j = Some (b, len) \<Longrightarrow> 0 < len"
  shows "exec_loop rx s i acc = Some (acc @ all_matches rx s i)"
  using assms
proof (induction rx s i arbitrary: acc rule: all_matches.induct)
  case (1 rx s i)
  show ?case
  proof (cases "length s < i")
    case True
    then show ?thesis
      using "1.prems"(1)
      by (subst exec_loop.simps, subst all_matches.simps) (simp add: exec_def)
  next
    case False
    show ?thesis
    proof (cases "search rx s i")
      case None
      then show ?thesis
        using False "1.prems"(1)
        by (subst exec_loop.simps, subst all_matches.simps) (simp add: exec_def)
    next
      case (Some p)
      obtain b len where p: "p = (b, len)" by (cases p)
      have pos: "0 < len" using "1.prems"(2) Some p by blast
      have IH: "exec_loop rx s (b + len) (acc @ [VExec (substring s b len) b])
                  = Some ((acc @ [VExec (substring s b len) b]) @ all_matches rx s (b + len))"
        using "1.IH" [OF False Some p [symmetric], of "acc @ [VExec (substring s b len) b]"]
          "1.prems" pos by simp
      show ?thesis
        using False Some p pos "1.prems"(1) IH
        by (subst exec_loop.simps, subst all_matches.simps) (simp add: exec_def)
    qed
  qed
qed

lemma castPattern_global_nonempty:
  assumes "global rx" and "\<And>j b len. search rx word j = Some (b, len) \<Longrightarrow> 0 < len"
    and "string_match word rx \<noteq> VNull"
  shows "castPattern rx word
           = Some (Inr (VObj [(''match'', string_match word rx),
                              (''matches'', VList (all_matches rx word 0))]))"
  using assms(1,3) exec_loop_collects [OF assms(1,2), where i = 0 and acc = "[]"]
  by (simp add: castPattern_def Let_def)

text \<open>
  C3 at the pattern \<^verbatim>\<open>/a*/g\<close> and the token \<^verbatim>\<open>b\<close>. The pattern matches (\<^verbatim>\<open>'b'.match(/a*/g)\<close>
  is \<^verbatim>\<open>['', '']\<close>), and \<^verbatim>\<open>cast\<close> never returns: \<^verbatim>\<open>exec\<close> finds the empty match at index 0
  and leaves \<^verbatim>\<open>lastIndex\<close> at 0, so the \<^verbatim>\<open>while\<close> loop finds the same match again and again.
\<close>

theorem cast_global_empty_match_never_returns:
  "string_match ''b'' a_star_global = VList [VStr [], VStr []]
   \<and> cast reg (Pattern a_star_global) ''b'' msg as = None"
proof -
  have "global a_star_global" by (simp add: a_star_global_def)
  then show ?thesis
    by (simp add: castPattern_def Let_def string_match_a_star_global
        exec_loop_stuck [OF exec_a_star_global])
qed

section \<open>The optional prompt\<close>

text \<open>
  C4. When the trimmed word is empty and the argument has a prompt with
  \<^verbatim>\<open>optional = true\<close>, \<^verbatim>\<open>process\<close> returns what the default provider resolves to (or rejects
  with what it rejects with) and leaves the state as it was: nothing is added to the
  trace, so nothing is sent and no reply is awaited, and no message is taken from the
  inbox.
\<close>

theorem process_optional_default:
  assumes "trim word0 = []" and "arg_prompt this = Some p" and "optional p = Some True"
  shows "process env this word0 msg st = (Some (arg_default this msg (args st)), st)"
  using assms by (simp add: process_def)

text \<open>At a word of two blanks, with four replies waiting that are never looked at.\<close>

theorem process_optional_default_witness:
  "trim ''  '' = []
   \<and> process env0 optional_colour ''  '' user_message (state0 four_replies)
       = (Some (Inr (VStr ''none'')), state0 four_replies)
   \<and> trace (snd (process env0 optional_colour ''  '' user_message (state0 four_replies))) = []
   \<and> inbox (snd (process env0 optional_colour ''  '' user_message (state0 four_replies))) = four_replies"
  using process_optional_default [of "''  ''" optional_colour
      "no_options\<lparr>optional := Some True, start := Some (Static (Str ''Which colour?''))\<rparr>"
      env0 user_message "state0 four_replies"]
  by (simp add: trim_blank optional_colour_def state0_def)

section \<open>One turn of \<^verbatim>\<open>promptOne\<close>\<close>

text \<open>
  The turn unfolded along each of its branches. In all of them the first two hypotheses
  say that the head of the turn went through and what \<^verbatim>\<open>awaitMessages\<close> gave.
\<close>

lemma promptOne_start_fails:
  "startTurn env c prev rc (addPrompt (message c) st) = (Inl e, st1)
   \<Longrightarrow> promptOne env c prev rc st = (Some (Inl e), st1)"
  by (subst promptOne.simps) simp

lemma promptOne_await_rejects:
  "startTurn env c prev rc (addPrompt (message c) st) = (Inr sent, st1)
   \<Longrightarrow> awaitReply c sent st1 = (Rejected err, st2)
   \<Longrightarrow> promptOne env c prev rc st = catchBlock env c prev rc err st2"
  by (subst promptOne.simps) simp

lemma promptOne_cancel:
  "startTurn env c prev rc (addPrompt (message c) st) = (Inr sent, st1)
   \<Longrightarrow> awaitReply c sent st1 = (Reply input, st2)
   \<Longrightarrow> cancelWord (prompt c) = Some cw
   \<Longrightarrow> toLowerCase (content input) = toLowerCase cw
   \<Longrightarrow> promptOne env c prev rc st = cancelled env c prev rc input st2"
  by (subst promptOne.simps) (simp add: sameWord_def)

lemma promptOne_stop:
  "startTurn env c prev rc (addPrompt (message c) st) = (Inr sent, st1)
   \<Longrightarrow> awaitReply c sent st1 = (Reply input, st2)
   \<Longrightarrow> cancelWord (prompt c) = Some cw
   \<Longrightarrow> toLowerCase (content input) \<noteq> toLowerCase cw
   \<Longrightarrow> isInfinite c
   \<Longrightarrow> stopWord (prompt c) = Some sw
   \<Longrightarrow> toLowerCase (content input) = toLowerCase sw
   \<Longrightarrow> promptOne env c prev rc st =
        (if values' st2 = [] then promptOne env c input (rc + 1) st2
         else (Some (Inr (VList (values' st2))), st2))"
  by (subst promptOne.simps) (simp add: sameWord_def)

lemma promptOne_cast:
  "startTurn env c prev rc (addPrompt (message c) st) = (Inr sent, st1)
   \<Longrightarrow> awaitReply c sent st1 = (Reply input, st2)
   \<Longrightarrow> cancelWord (prompt c) = Some cw
   \<Longrightarrow> toLowerCase (content input) \<noteq> toLowerCase cw
   \<Longrightarrow> (isInfinite c \<Longrightarrow> \<exists>sw. stopWord (prompt c) = Some sw \<and> toLowerCase (content input) \<noteq> toLowerCase sw)
   \<Longrightarrow> promptOne env c prev rc st =
        (case cast (resolver env) (arg_type (self c)) (content input) input (args st2) of
           None \<Rightarrow> (None, st2)
         | Some (Inl e) \<Rightarrow> catchBlock env c prev rc e st2
         | Some (Inr parsedValue) \<Rightarrow>
             if nullish parsedValue then promptOne env c input (rc + 1) st2
             else if isInfinite c then
               (if belowLimit (length (values' (push (self c) parsedValue st2))) (limit (prompt c))
                then promptOne env c (message c) 1 (push (self c) parsedValue st2)
                else (Some (Inr (VList (values' (push (self c) parsedValue st2)))),
                      push (self c) parsedValue st2))
             else (Some (Inr parsedValue), st2))"
  by (subst promptOne.simps) (auto simp add: sameWord_def)

text \<open>What the parts of a turn leave alone.\<close>

lemma values_sendText: "sendText env tg txt st = (r, st') \<Longrightarrow> values' st' = values' st \<and> args st' = args st \<and> prompts st' = prompts st"
  by (auto simp: sendText_def send_def split: option.splits if_splits sum.splits)

lemma frame_startTurn:
  "startTurn env c prev rc st = (r, st') \<Longrightarrow> values' st' = values' st \<and> args st' = args st \<and> prompts st' = prompts st \<and> inbox st' = inbox st"
  by (auto simp: startTurn_def split: sum.splits if_splits prod.splits option.splits
        dest: values_sendText inbox_sendText)

lemma frame_awaitReply:
  "awaitReply c sent st = (r, st') \<Longrightarrow> values' st' = values' st \<and> args st' = args st \<and> prompts st' = prompts st \<and> trace st' = trace st @ [AwaitMessages]"
  by (auto simp: awaitReply_def split: prod.splits)

lemma turn_frame:
  assumes "startTurn env c prev rc (addPrompt (message c) st) = (Inr sent, st1)"
    and "awaitReply c sent st1 = (r, st2)"
  shows "args st2 = args st \<and> values' st2 = values' st"
  using frame_startTurn [OF assms(1)] frame_awaitReply [OF assms(2)] by (simp add: addPrompt_def)

lemma frame_catchBlock:
  "catchBlock env c prev rc err st = (r, st') \<Longrightarrow> args st' = args st \<and> values' st' = values' st"
  by (auto simp: catchBlock_def removePrompt_def split: if_splits sum.splits prod.splits
      dest: values_sendText)

lemma frame_cancelled:
  "cancelled env c prev rc input st = (r, st') \<Longrightarrow> args st' = args st \<and> values' st' = values' st"
  by (auto simp: cancelled_def removePrompt_def split: sum.splits prod.splits
      dest!: frame_catchBlock values_sendText)

lemma finish_frame: "args (snd (finish env msg r)) = args (snd r) \<and> values' (snd (finish env msg r)) = values' (snd r)"
  by (cases r) (auto simp: finish_def removePrompt_def split: option.splits sum.splits)

lemma sendText_trace:
  "sendText env tg txt st = (Inr s, st') \<Longrightarrow>
     trace st' = trace st @ (case txt of None \<Rightarrow> [] | Some t \<Rightarrow> if t = [] then [] else [Send tg t])"
  by (auto simp: sendText_def send_def split: option.splits if_splits sum.splits)

lemma sendText_events: "trace (snd (sendText env tg txt st)) = trace st @ sendEvents tg txt"
  by (auto simp: sendText_def send_def sendEvents_def split: option.splits sum.splits)

lemma sendText_ok_events: "sendText env tg txt st = (r, st') \<Longrightarrow> trace st' = trace st @ sendEvents tg txt"
  using sendText_events [of env tg "txt" st] by simp

lemma catchBlock_cancel: "catchBlock env c prev rc CommandCancelled st = (Some (Inl CommandCancelled), st)"
  by (simp add: catchBlock_def)

lemma catchBlock_error: "catchBlock env c prev rc (ErrorObj x) st = (Some (Inl (ErrorObj x)), st)"
  by (simp add: catchBlock_def)

lemma catchBlock_timeout_text_fails:
  "\<not> instanceofError err \<Longrightarrow> err \<noteq> CommandCancelled
   \<Longrightarrow> getText (message c) (args st) (isInfinite c) (timeout (prompt c)) rc prev [] = Inl e
   \<Longrightarrow> catchBlock env c prev rc err st = (Some (Inl e), st)"
  by (simp add: catchBlock_def)

lemma catchBlock_timeout_send_fails:
  "\<not> instanceofError err \<Longrightarrow> err \<noteq> CommandCancelled
   \<Longrightarrow> getText (message c) (args st) (isInfinite c) (timeout (prompt c)) rc prev [] = Inr txt
   \<Longrightarrow> sendText env Channel txt st = (Inl e, st')
   \<Longrightarrow> catchBlock env c prev rc err st = (Some (Inl e), st')"
  by (simp add: catchBlock_def)

lemma belowLimit_3: "belowLimit n (Some 3) = (n < 3)"
  by (simp add: belowLimit_def numeral_eq_enat)

lemma startTurn_silent:
  "isInfinite c \<Longrightarrow> values' st \<noteq> [] \<Longrightarrow> startTurn env c prev 1 st = (Inr None, st)"
  by (simp add: startTurn_def shouldSend_def)

lemma awaitReply_first:
  "inbox st = Arrives r # rest \<Longrightarrow> accepts (message c) sent r
   \<Longrightarrow> awaitReply c sent st = (Reply r, st\<lparr>inbox := rest, trace := trace st @ [AwaitMessages]\<rparr>)"
  by (simp add: awaitReply_def)

text \<open>
  A turn that hands over to a later turn ends as that turn does, and in infinite mode
  \<^verbatim>\<open>args[this.id]\<close> holds the accumulated values at the start of every turn.
\<close>

lemma nextTurn_promptOne:
  "nextTurn env c (prev, rc, st) = Some (p, k, s)
   \<Longrightarrow> promptOne env c prev rc st = promptOne env c p k s"
  by (subst promptOne.simps)
     (auto simp: nextTurn_def split: prod.splits sum.splits awaited.splits bool.splits
        option.splits if_splits)

lemma laterTurn_promptOne:
  "laterTurn env c n (prev, rc, st) = Some (p, k, s)
   \<Longrightarrow> promptOne env c prev rc st = promptOne env c p k s"
proof (induction n arbitrary: prev rc st)
  case 0
  then show ?case by simp
next
  case (Suc n)
  then obtain p1 k1 s1 where nx: "nextTurn env c (prev, rc, st) = Some (p1, k1, s1)"
    and lt: "laterTurn env c n (p1, k1, s1) = Some (p, k, s)"
    by (auto split: option.splits)
  show ?case
    using nextTurn_promptOne [OF nx] Suc.IH [OF lt] by simp
qed

lemma nextTurn_args_inv:
  assumes "isInfinite c" and "args st = A(arg_id (self c) \<mapsto> VList (values' st))"
    and "nextTurn env c (prev, rc, st) = Some (p, k, s)"
  shows "args s = A(arg_id (self c) \<mapsto> VList (values' s))"
proof -
  from assms(3) obtain sent st1 input st2 where
    h: "startTurn env c prev rc (addPrompt (message c) st) = (Inr sent, st1)"
    and aw: "awaitReply c sent st1 = (Reply input, st2)"
    and s: "s = st2 \<or> (\<exists>v. s = push (self c) v st2)"
    by (auto simp: nextTurn_def split: prod.splits sum.splits awaited.splits bool.splits
        option.splits if_splits)
  have "args st2 = A(arg_id (self c) \<mapsto> VList (values' st2))"
    using turn_frame [OF h aw] assms(2) by simp
  then show ?thesis
    using s by (auto simp: push_def)
qed

lemma laterTurn_args_inv:
  assumes "isInfinite c"
  shows "args st = A(arg_id (self c) \<mapsto> VList (values' st))
     \<Longrightarrow> laterTurn env c n (prev, rc, st) = Some (p, k, s)
     \<Longrightarrow> args s = A(arg_id (self c) \<mapsto> VList (values' s))"
proof (induction n arbitrary: prev rc st)
  case 0
  then have "st = s" by simp
  with 0 show ?case by blast
next
  case (Suc n)
  from Suc.prems(2) obtain p1 k1 s1 where nx: "nextTurn env c (prev, rc, st) = Some (p1, k1, s1)"
    and lt: "laterTurn env c n (p1, k1, s1) = Some (p, k, s)"
    by (auto split: option.splits)
  show ?case
    using Suc.IH [OF nextTurn_args_inv [OF assms Suc.prems(1) nx] lt] .
qed

text \<open>What a rejected \<^verbatim>\<open>promptOne\<close> and the \<^verbatim>\<open>catch\<close> block give to \<^verbatim>\<open>collect\<close>.\<close>

lemma finish_catchBlock: "finish env msg (catchBlock env' c prev rc err st) = catchBlock env' c prev rc err st"
  by (auto simp: finish_def catchBlock_def split: sum.splits prod.splits option.splits)

lemma catchBlock_like_timeout:
  "\<not> instanceofError err \<Longrightarrow> err \<noteq> CommandCancelled
   \<Longrightarrow> catchBlock env c prev rc err st = catchBlock env c prev rc TimeExpired st"
  by (simp add: catchBlock_def)

lemma collect_laterTurn:
  assumes "matchType this msg (args st0) = Inr mt"
    and "laterTurn env (collectClosure env this msg word mt) n
           (msg, 1 + of_bool (word \<noteq> []), collectState this (infiniteMode env this mt word) st0)
         = Some (prev, rc, st)"
  shows "collect env this msg word st0
         = finish env msg (promptOne env (collectClosure env this msg word mt) prev rc st)"
  using assms(1) laterTurn_promptOne [OF assms(2)] by (simp add: collect_def)

lemma finish_rejects: "finish env msg (Some (Inl e), st) = (Some (Inl e), st)"
  by (simp add: finish_def)

text \<open>A prompt text that is a function.\<close>

lemma join_lines_Cons: "join_lines (l # ls) = l @ concat (map ((#) (CHR 0x0A)) ls)"
  by (induction ls arbitrary: l) simp_all

lemma getText_generator:
  "getText msg as isInf (Some (Generator g)) rc im iw =
     (case g msg as \<lparr>d_retries = rc, d_infinite = isInf, d_message = im, d_word = iw\<rparr> of
        Inl e \<Rightarrow> Inl e | Inr res \<Rightarrow> Inr (map_option joined res))"
  by (simp add: getText_def split: sum.splits option.splits)

lemma startTurn_generator:
  assumes "shouldSend c rc st" and "prompter c rc = Some (Generator g)"
    and "g (message c) (args st)
          \<lparr>d_retries = rc, d_infinite = isInfinite c, d_message = prev,
           d_word = prevInput c prev rc\<rparr> = Inr res"
  shows "trace (snd (startTurn env c prev rc st))
          = trace st @ sendEvents (if commandUtil env then Util else Channel) (map_option joined res)"
proof -
  let ?tg = "if commandUtil env then Util else Channel"
  have "trace (snd (startTurn env c prev rc st))
          = trace (snd (sendText env ?tg (map_option joined res) st))"
    using assms
    by (auto simp: startTurn_def getText_generator split: prod.splits sum.splits option.splits)
  then show ?thesis by (simp add: sendText_events)
qed

lemma cancelled_generator:
  assumes "cancel (prompt c) = Some (Generator g)"
    and "g (message c) (args st)
          \<lparr>d_retries = rc, d_infinite = isInfinite c, d_message = input, d_word = []\<rparr> = Inr res"
    and "sendText env Channel (map_option joined res) st = (Inr x, st')"
  shows "cancelled env c prev rc input st = (Some (Inl CommandCancelled), removePrompt (message c) st')"
  using assms by (simp add: cancelled_def getText_generator catchBlock_cancel)

lemma timeout_generator:
  assumes "timeout (prompt c) = Some (Generator g)"
    and "g (message c) (args st)
          \<lparr>d_retries = rc, d_infinite = isInfinite c, d_message = prev, d_word = []\<rparr> = Inr res"
    and "sendText env Channel (map_option joined res) st = (Inr x, st')"
  shows "catchBlock env c prev rc TimeExpired st
           = (Some (Inl CommandCancelled), removePrompt (message c) st')"
  using assms by (simp add: catchBlock_def getText_generator)

section \<open>Infinite prompts\<close>

text \<open>
  C5. In an infinite prompt with \<^verbatim>\<open>limit = 3\<close> and nothing accumulated yet, let the turn's
  prompt text go out, and let the next three messages to arrive be replies that each cast
  successfully: each passes the filter of \<^verbatim>\<open>awaitMessages\<close>, is neither the cancel word nor
  the stop word, and is cast to a value that is not \<^verbatim>\<open>null\<close> (the cast sees in
  \<^verbatim>\<open>args[this.id]\<close> the values accumulated before it). Then the session returns exactly these
  three values in the order of arrival. No fourth turn is started: after the third reply
  is awaited nothing more is registered, sent or awaited, and what is left of the inbox is
  untouched.
\<close>

theorem infinite_limit_three:
  assumes inf: "isInfinite c" and lim: "limit (prompt c) = Some 3"
    and empty: "values' st = []"
    and head: "startTurn env c prev rc (addPrompt (message c) st) = (Inr sent, st1)"
    and inb: "inbox st = Arrives r1 # Arrives r2 # Arrives r3 # rest"
    and acc1: "accepts (message c) sent r1"
    and acc2: "accepts (message c) None r2"
    and acc3: "accepts (message c) None r3"
    and cw: "cancelWord (prompt c) = Some cw"
    and sw: "stopWord (prompt c) = Some sw"
    and n1: "toLowerCase (content r1) \<noteq> toLowerCase cw" "toLowerCase (content r1) \<noteq> toLowerCase sw"
    and n2: "toLowerCase (content r2) \<noteq> toLowerCase cw" "toLowerCase (content r2) \<noteq> toLowerCase sw"
    and n3: "toLowerCase (content r3) \<noteq> toLowerCase cw" "toLowerCase (content r3) \<noteq> toLowerCase sw"
    and c1: "cast (resolver env) (arg_type (self c)) (content r1) r1 (args st) = Some (Inr v1)"
            "\<not> nullish v1"
    and c2: "cast (resolver env) (arg_type (self c)) (content r2) r2
               ((args st)(arg_id (self c) \<mapsto> VList [v1])) = Some (Inr v2)"
            "\<not> nullish v2"
    and c3: "cast (resolver env) (arg_type (self c)) (content r3) r3
               ((args st)(arg_id (self c) \<mapsto> VList [v1, v2])) = Some (Inr v3)"
            "\<not> nullish v3"
  shows "fst (promptOne env c prev rc st) = Some (Inr (VList [v1, v2, v3]))
       \<and> inbox (snd (promptOne env c prev rc st)) = rest
       \<and> trace (snd (promptOne env c prev rc st))
           = trace st1 @ [AwaitMessages, AddPrompt, AwaitMessages, AddPrompt, AwaitMessages]
       \<and> args (snd (promptOne env c prev rc st)) = (args st)(arg_id (self c) \<mapsto> VList [v1, v2, v3])"
proof -
  have f1: "values' st1 = [] \<and> args st1 = args st \<and> inbox st1 = inbox st"
    using frame_startTurn [OF head] empty by (simp add: addPrompt_def)
  define st2 where "st2 = st1\<lparr>inbox := Arrives r2 # Arrives r3 # rest, trace := trace st1 @ [AwaitMessages]\<rparr>"
  have a1: "awaitReply c sent st1 = (Reply r1, st2)"
    unfolding st2_def using f1 inb acc1 by (simp add: awaitReply_first)
  define st3 where "st3 = push (self c) v1 st2"
  have t1: "promptOne env c prev rc st = promptOne env c (message c) 1 st3"
    using promptOne_cast [OF head a1 cw n1(1)] sw n1(2) c1 f1 inf lim
    by (simp add: st2_def st3_def push_def belowLimit_3)
  let ?st4 = "addPrompt (message c) st3"
  have h2: "startTurn env c (message c) 1 ?st4 = (Inr None, ?st4)"
    by (rule startTurn_silent) (simp_all add: inf st3_def push_def addPrompt_def)
  define st5 where "st5 = ?st4\<lparr>inbox := Arrives r3 # rest, trace := trace ?st4 @ [AwaitMessages]\<rparr>"
  have a2: "awaitReply c None ?st4 = (Reply r2, st5)"
    unfolding st5_def using acc2
    by (simp add: awaitReply_first st3_def st2_def push_def addPrompt_def)
  define st6 where "st6 = push (self c) v2 st5"
  have t2: "promptOne env c (message c) 1 st3 = promptOne env c (message c) 1 st6"
    using promptOne_cast [OF h2 a2 cw n2(1)] sw n2(2) c2 f1 inf lim
    by (simp add: st6_def st5_def st3_def st2_def push_def addPrompt_def belowLimit_3)
  let ?st7 = "addPrompt (message c) st6"
  have h3: "startTurn env c (message c) 1 ?st7 = (Inr None, ?st7)"
    by (rule startTurn_silent) (simp_all add: inf st6_def push_def addPrompt_def)
  define st8 where "st8 = ?st7\<lparr>inbox := rest, trace := trace ?st7 @ [AwaitMessages]\<rparr>"
  have a3: "awaitReply c None ?st7 = (Reply r3, st8)"
    unfolding st8_def using acc3
    by (simp add: awaitReply_first st6_def st5_def push_def addPrompt_def)
  have t3: "promptOne env c (message c) 1 st6 = (Some (Inr (VList [v1, v2, v3])), push (self c) v3 st8)"
    using promptOne_cast [OF h3 a3 cw n3(1)] sw n3(2) c3 f1 inf lim
    by (simp add: st8_def st6_def st5_def st3_def st2_def push_def addPrompt_def belowLimit_3)
  show ?thesis
    unfolding t1 t2 t3
    using f1 by (simp add: st8_def st6_def st5_def st3_def st2_def push_def addPrompt_def)
qed

text \<open>
  At the replies \<^verbatim>\<open>red\<close>, \<^verbatim>\<open>green\<close>, \<^verbatim>\<open>blue\<close> and \<^verbatim>\<open>black\<close>: the fourth is left in the inbox. And
  at the prompt \<open>pick_french\<close> and the replies \<open>ETE\<close>, \<^verbatim>\<open>red\<close>, \<open>ete\<close> and \<open>ARRET\<close>: the fourth,
  which is the cancel word in capitals, is left in the inbox.
\<close>

theorem infinite_limit_three_witness:
  "fst (promptOne env0 pick_closure user_message 1 (state0 four_replies))
     = Some (Inr (VList [VStr ''red'', VStr ''green'', VStr ''blue'']))
   \<and> inbox (snd (promptOne env0 pick_closure user_message 1 (state0 four_replies)))
     = [Arrives (reply 5 ''black'')]
   \<and> trace (snd (promptOne env0 pick_closure user_message 1 (state0 four_replies)))
     = [AddPrompt, Send Channel ''Pick three.'', AwaitMessages, AddPrompt, AwaitMessages,
        AddPrompt, AwaitMessages]
   \<and> args (snd (promptOne env0 pick_closure user_message 1 (state0 four_replies))) ''picks''
     = Some (VList [VStr ''red'', VStr ''green'', VStr ''blue''])
   \<and> fst (promptOne env0 french_closure user_message 1
          (state0 [Arrives (reply 2 ETE), Arrives (reply 3 ''red''), Arrives (reply 4 ete),
                   Arrives (reply 5 ARRET)]))
     = Some (Inr (VList [VStr ETE, VStr ''red'', VStr ete]))
   \<and> inbox (snd (promptOne env0 french_closure user_message 1
          (state0 [Arrives (reply 2 ETE), Arrives (reply 3 ''red''), Arrives (reply 4 ete),
                   Arrives (reply 5 ARRET)])))
     = [Arrives (reply 5 ARRET)]"
proof -
  let ?st = "state0 [Arrives (reply 2 ETE), Arrives (reply 3 ''red''), Arrives (reply 4 ete),
                   Arrives (reply 5 ARRET)]"
  have "fst (promptOne env0 french_closure user_message 1 ?st)
          = Some (Inr (VList [VStr ETE, VStr ''red'', VStr ete]))
      \<and> inbox (snd (promptOne env0 french_closure user_message 1 ?st))
          = [Arrives (reply 5 ARRET)]
      \<and> trace (snd (promptOne env0 french_closure user_message 1 ?st))
          = trace (?st\<lparr>prompts := {(3, 7)},
                     trace := [AddPrompt, Send Channel ''Pick three.'']\<rparr>)
            @ [AwaitMessages, AddPrompt, AwaitMessages, AddPrompt, AwaitMessages]
      \<and> args (snd (promptOne env0 french_closure user_message 1 ?st))
          = (args ?st)(arg_id (self french_closure) \<mapsto>
               VList [VStr ETE, VStr ''red'', VStr ete])"
    by (rule infinite_limit_three [where sent = "Some 101" and ?r1.0 = "reply 2 ETE"
          and ?r2.0 = "reply 3 ''red''" and ?r3.0 = "reply 4 ete" and cw = arret
          and sw = termine])
       (simp_all add: french_closure_simps state0_def accepts_def reply_def
          user_message_def lower_words lower_latin1 latin1_distinct env0_def pick_french_def
          nullish_def startTurn_def shouldSend_def prompter_def prevInput_def getText_def
          sendText_def send_def addPrompt_def)
  then have latin:
    "fst (promptOne env0 french_closure user_message 1 ?st)
          = Some (Inr (VList [VStr ETE, VStr ''red'', VStr ete]))
     \<and> inbox (snd (promptOne env0 french_closure user_message 1 ?st))
          = [Arrives (reply 5 ARRET)]"
    by simp
  have "fst (promptOne env0 pick_closure user_message 1 (state0 four_replies))
          = Some (Inr (VList [VStr ''red'', VStr ''green'', VStr ''blue'']))
      \<and> inbox (snd (promptOne env0 pick_closure user_message 1 (state0 four_replies)))
          = [Arrives (reply 5 ''black'')]
      \<and> trace (snd (promptOne env0 pick_closure user_message 1 (state0 four_replies)))
          = trace ((state0 four_replies)\<lparr>prompts := {(3, 7)},
                     trace := [AddPrompt, Send Channel ''Pick three.'']\<rparr>)
            @ [AwaitMessages, AddPrompt, AwaitMessages, AddPrompt, AwaitMessages]
      \<and> args (snd (promptOne env0 pick_closure user_message 1 (state0 four_replies)))
          = (args (state0 four_replies))(arg_id (self pick_closure) \<mapsto>
               VList [VStr ''red'', VStr ''green'', VStr ''blue''])"
    by (rule infinite_limit_three [where sent = "Some 101" and ?r1.0 = "reply 2 ''red''"
          and ?r2.0 = "reply 3 ''green''" and ?r3.0 = "reply 4 ''blue''" and cw = "''cancel''"
          and sw = "''stop''"])
       (simp_all add: pick_closure_simps state0_def four_replies_def accepts_def reply_def
          user_message_def lower_words env0_def pick_three_def nullish_def
          startTurn_def shouldSend_def prompter_def prevInput_def getText_def sendText_def send_def
          addPrompt_def)
  then have plain:
    "fst (promptOne env0 pick_closure user_message 1 (state0 four_replies))
       = Some (Inr (VList [VStr ''red'', VStr ''green'', VStr ''blue'']))
     \<and> inbox (snd (promptOne env0 pick_closure user_message 1 (state0 four_replies)))
       = [Arrives (reply 5 ''black'')]
     \<and> trace (snd (promptOne env0 pick_closure user_message 1 (state0 four_replies)))
       = [AddPrompt, Send Channel ''Pick three.'', AwaitMessages, AddPrompt, AwaitMessages,
          AddPrompt, AwaitMessages]
     \<and> args (snd (promptOne env0 pick_closure user_message 1 (state0 four_replies))) ''picks''
       = Some (VList [VStr ''red'', VStr ''green'', VStr ''blue''])"
    by (simp add: pick_closure_simps state0_def pick_three_def)
  from plain latin show ?thesis by blast
qed

text \<open>
  C6, as the claim states it, fails when the stop word is also the cancel word: the cancel
  word is looked for first. With \<^verbatim>\<open>{ infinite: true, stopWord: 'done', cancelWord: 'done' }\<close>
  the reply \<^verbatim>\<open>done\<close> ends the session with the cancellation signal, both when nothing has
  been accumulated (no retry turn is run: the next message stays in the inbox) and after
  \<^verbatim>\<open>red\<close> has been accumulated (the sequence is not returned).
\<close>

theorem stop_word_counterexample:
  "infiniteMode env0 pick_done WORD []
   \<and> stopWord (mergedPrompt env0 pick_done) = Some ''done''
   \<and> fst (collect env0 pick_done user_message []
            (state0 [Arrives (reply 2 ''done''), Arrives (reply 3 ''red'')]))
       = Some (Inl CommandCancelled)
   \<and> inbox (snd (collect env0 pick_done user_message []
            (state0 [Arrives (reply 2 ''done''), Arrives (reply 3 ''red'')])))
       = [Arrives (reply 3 ''red'')]
   \<and> fst (collect env0 pick_done user_message []
            (state0 [Arrives (reply 2 ''red''), Arrives (reply 3 ''done'')]))
       = Some (Inl CommandCancelled)"
  by (simp add: engine_defs input_defs pick_done_def lower_replies)

text \<open>
  C6, amended: in infinite mode, a reply that equals the stop word without regard to case,
  and does not equal the cancel word, is treated as invalid input while the accumulated
  sequence is empty (the turn hands over to a new turn with \<^verbatim>\<open>retryCount + 1\<close> and the reply
  as previous message), and ends the session with the accumulated sequence as soon as it
  has one value or more.
\<close>

theorem stop_word_in_infinite_mode:
  assumes "isInfinite c"
    and "startTurn env c prev rc (addPrompt (message c) st) = (Inr sent, st1)"
    and "awaitReply c sent st1 = (Reply input, st2)"
    and "cancelWord (prompt c) = Some cw"
    and "toLowerCase (content input) \<noteq> toLowerCase cw"
    and "stopWord (prompt c) = Some sw"
    and "toLowerCase (content input) = toLowerCase sw"
  shows "values' st2 = values' st
       \<and> (values' st = [] \<longrightarrow> promptOne env c prev rc st = promptOne env c input (rc + 1) st2)
       \<and> (values' st \<noteq> [] \<longrightarrow> promptOne env c prev rc st = (Some (Inr (VList (values' st))), st2))"
proof -
  have "values' st1 = values' st"
    using frame_startTurn [OF assms(2)] by (simp add: addPrompt_def)
  then have v: "values' st2 = values' st"
    using frame_awaitReply [OF assms(3)] by simp
  show ?thesis
    using promptOne_stop [OF assms(2) assms(3) assms(4) assms(5) assms(1) assms(6) assms(7)] v
    by simp
qed

text \<open>
  At the reply \<^verbatim>\<open>Stop\<close> with nothing accumulated, at the reply \<^verbatim>\<open>STOP\<close> after \<^verbatim>\<open>red\<close> has
  been accumulated, and at the prompt \<open>pick_french\<close> and the reply \<open>TERMINE\<close>, its stop word in
  capitals, after \<^verbatim>\<open>red\<close> has been accumulated.
\<close>

theorem stop_word_in_infinite_mode_witness:
  "promptOne env0 pick_closure user_message 1
      (state0 [Arrives (reply 2 ''Stop''), Arrives (reply 3 ''red'')])
     = promptOne env0 pick_closure (reply 2 ''Stop'') 2
        ((state0 [Arrives (reply 3 ''red'')])\<lparr>prompts := {(3, 7)},
            trace := [AddPrompt, Send Channel ''Pick three.'', AwaitMessages]\<rparr>)
   \<and> promptOne env0 pick_closure user_message 1
      ((state0 [Arrives (reply 4 ''STOP'')])\<lparr>values' := [VStr ''red'']\<rparr>)
     = (Some (Inr (VList [VStr ''red''])),
        (state0 [])\<lparr>values' := [VStr ''red''], prompts := {(3, 7)},
            trace := [AddPrompt, AwaitMessages]\<rparr>)
   \<and> promptOne env0 french_closure user_message 1
      ((state0 [Arrives (reply 4 TERMINE)])\<lparr>values' := [VStr ''red'']\<rparr>)
     = (Some (Inr (VList [VStr ''red''])),
        (state0 [])\<lparr>values' := [VStr ''red''], prompts := {(3, 7)},
            trace := [AddPrompt, AwaitMessages]\<rparr>)"
proof -
  let ?stL = "(state0 [Arrives (reply 4 TERMINE)])\<lparr>values' := [VStr ''red'']\<rparr>"
  let ?stL2 = "(state0 [])\<lparr>values' := [VStr ''red''], prompts := {(3, 7)},
            trace := [AddPrompt, AwaitMessages]\<rparr>"
  have L: "values' ?stL2 = values' ?stL
      \<and> (values' ?stL = [] \<longrightarrow>
            promptOne env0 french_closure user_message 1 ?stL
              = promptOne env0 french_closure (reply 4 TERMINE) (1 + 1) ?stL2)
      \<and> (values' ?stL \<noteq> [] \<longrightarrow>
            promptOne env0 french_closure user_message 1 ?stL
              = (Some (Inr (VList (values' ?stL))), ?stL2))"
    by (rule stop_word_in_infinite_mode [where sent = None and cw = arret
          and sw = termine
          and ?st1.0 = "(state0 [Arrives (reply 4 TERMINE)])\<lparr>values' := [VStr ''red''],
             prompts := {(3, 7)}, trace := [AddPrompt]\<rparr>"])
       (simp_all add: french_closure_simps startTurn_def shouldSend_def prompter_def prevInput_def
          addPrompt_def awaitReply_def accepts_def getText_def sendText_def send_def
          input_defs lower_latin1 latin1_distinct)
  from L have latin: "promptOne env0 french_closure user_message 1 ?stL
       = (Some (Inr (VList [VStr ''red''])), ?stL2)"
    by (simp add: state0_def)
  let ?stA = "state0 [Arrives (reply 2 ''Stop''), Arrives (reply 3 ''red'')]"
  let ?stA2 = "(state0 [Arrives (reply 3 ''red'')])\<lparr>prompts := {(3, 7)},
            trace := [AddPrompt, Send Channel ''Pick three.'', AwaitMessages]\<rparr>"
  let ?stB = "(state0 [Arrives (reply 4 ''STOP'')])\<lparr>values' := [VStr ''red'']\<rparr>"
  let ?stB2 = "(state0 [])\<lparr>values' := [VStr ''red''], prompts := {(3, 7)},
            trace := [AddPrompt, AwaitMessages]\<rparr>"
  have A: "values' ?stA2 = values' ?stA
      \<and> (values' ?stA = [] \<longrightarrow>
            promptOne env0 pick_closure user_message 1 ?stA
              = promptOne env0 pick_closure (reply 2 ''Stop'') (1 + 1) ?stA2)
      \<and> (values' ?stA \<noteq> [] \<longrightarrow>
            promptOne env0 pick_closure user_message 1 ?stA = (Some (Inr (VList (values' ?stA))), ?stA2))"
    by (rule stop_word_in_infinite_mode [where sent = "Some 101" and cw = "''cancel''"
          and sw = "''stop''"
          and ?st1.0 = "(state0 [Arrives (reply 2 ''Stop''), Arrives (reply 3 ''red'')])\<lparr>prompts := {(3, 7)},
            trace := [AddPrompt, Send Channel ''Pick three.'']\<rparr>"])
       (simp_all add: pick_closure_simps startTurn_def shouldSend_def prompter_def prevInput_def
          addPrompt_def awaitReply_def accepts_def getText_def sendText_def send_def
          input_defs lower_replies)
  have B: "values' ?stB2 = values' ?stB
      \<and> (values' ?stB = [] \<longrightarrow>
            promptOne env0 pick_closure user_message 1 ?stB
              = promptOne env0 pick_closure (reply 4 ''STOP'') (1 + 1) ?stB2)
      \<and> (values' ?stB \<noteq> [] \<longrightarrow>
            promptOne env0 pick_closure user_message 1 ?stB = (Some (Inr (VList (values' ?stB))), ?stB2))"
    by (rule stop_word_in_infinite_mode [where sent = None and cw = "''cancel''"
          and sw = "''stop''"
          and ?st1.0 = "(state0 [Arrives (reply 4 ''STOP'')])\<lparr>values' := [VStr ''red''],
             prompts := {(3, 7)}, trace := [AddPrompt]\<rparr>"])
       (simp_all add: pick_closure_simps startTurn_def shouldSend_def prompter_def prevInput_def
          addPrompt_def awaitReply_def accepts_def getText_def sendText_def send_def
          input_defs lower_replies)
  from A B have plain:
    "promptOne env0 pick_closure user_message 1 ?stA
       = promptOne env0 pick_closure (reply 2 ''Stop'') 2 ?stA2
     \<and> promptOne env0 pick_closure user_message 1 ?stB = (Some (Inr (VList [VStr ''red''])), ?stB2)"
    by (simp add: state0_def numeral_2_eq_2)
  from plain latin show ?thesis by blast
qed

lemma promptOne_args_inv:
  assumes inf: "isInfinite c"
  shows "args st = A(arg_id (self c) \<mapsto> VList (values' st))
     \<Longrightarrow> args (snd (promptOne env c prev rc st))
          = A(arg_id (self c) \<mapsto> VList (values' (snd (promptOne env c prev rc st))))"
proof (induction "length (inbox st)" arbitrary: prev rc st rule: less_induct)
  case less
  let ?I = "\<lambda>s. args s = A(arg_id (self c) \<mapsto> VList (values' s))"
  obtain r0 st1 where h: "startTurn env c prev rc (addPrompt (message c) st) = (r0, st1)"
    by fastforce
  have i1: "?I st1"
    using frame_startTurn [OF h] less.prems by (simp add: addPrompt_def)
  show ?case
  proof (cases r0)
    case (Inl e)
    then show ?thesis using promptOne_start_fails [of env c prev rc st e st1] h i1 by simp
  next
    case (Inr sent)
    note h' = h [unfolded Inr]
    obtain a st2 where aw: "awaitReply c sent st1 = (a, st2)" by fastforce
    have i2: "?I st2" using turn_frame [OF h' aw] less.prems by simp
    show ?thesis
    proof (cases a)
      case (Rejected err)
      obtain r st' where cb: "catchBlock env c prev rc err st2 = (r, st')" by fastforce
      show ?thesis
        using promptOne_await_rejects [OF h' aw [unfolded Rejected]] cb frame_catchBlock [OF cb] i2
        by simp
    next
      case (Reply input)
      note aw' = aw [unfolded Reply]
      have short: "length (inbox st2) < length (inbox st)"
        using turn_shorter [of sent st1 env c prev rc "message c" st input st2] h' aw' by simp
      have IH: "\<And>p k s. inbox s = inbox st2 \<Longrightarrow> ?I s \<Longrightarrow> ?I (snd (promptOne env c p k s))"
        using less.hyps short by simp
      have ipush: "\<And>v. ?I (push (self c) v st2)" "\<And>v. inbox (push (self c) v st2) = inbox st2"
        using i2 by (simp_all add: push_def)
      have fc: "\<And>e. ?I (snd (catchBlock env c prev rc e st2))"
        using frame_catchBlock [of env c prev rc _ st2] i2 by (metis prod.collapse)
      have fz: "?I (snd (cancelled env c prev rc input st2))"
        using frame_cancelled [of env c prev rc input st2] i2 by (metis prod.collapse)
      show ?thesis
        apply (subst (1 2) promptOne.simps)
        using IH [of st2] IH [OF ipush(2) ipush(1)] fc fz i2 ipush
        by (simp add: h' aw' inf split: sum.splits bool.splits option.splits)
    qed
  qed
qed

text \<open>
  C10. In infinite mode \<^verbatim>\<open>collect\<close> runs the first turn from a state in which
  \<^verbatim>\<open>args[this.id]\<close> is the empty array and nothing has been awaited yet. At the start of every
  turn that the session comes to, after any number of turns, \<^verbatim>\<open>args\<close> is the \<^verbatim>\<open>args\<close> that
  \<^verbatim>\<open>collect\<close> was given with, under the argument's id, the values accumulated until then,
  and this is the \<^verbatim>\<open>args\<close> that the functions of that turn are called with: a function for
  the start or retry text (what it returns on these \<^verbatim>\<open>args\<close> is what is sent), the cast of
  the reply, by a type function or any other type (what it returns on these \<^verbatim>\<open>args\<close> is
  what the session goes on with: it is appended, and stored in \<^verbatim>\<open>args\<close> with the rest), a
  function for the cancel text and a function for the time-out text. When the session is
  cancelled by the cancel word or by a time-out in that turn, the \<^verbatim>\<open>args\<close> left behind still
  hold the accumulated values under the id; and whatever the session ends with (the
  sequence, the cancellation signal, any other failure, or no end at all), the \<^verbatim>\<open>args\<close> it
  leaves behind are the \<^verbatim>\<open>args\<close> it was given with, under the argument's id, the values
  accumulated until then.
\<close>

theorem infinite_values_stored_in_args:
  assumes "matchType this msg (args st) = Inr mt" and "infiniteMode env this mt word"
    and "c = collectClosure env this msg word mt"
    and "laterTurn env c n (msg, 1 + of_bool (word \<noteq> []), collectState this True st)
           = Some (prev, rc, s)"
  shows "collect env this msg word st
           = finish env msg (promptOne env c msg (1 + of_bool (word \<noteq> [])) (collectState this True st))
       \<and> args (collectState this True st) = (args st)(arg_id this \<mapsto> VList [])
       \<and> trace (collectState this True st) = trace st
       \<and> args s = (args st)(arg_id this \<mapsto> VList (values' s))
       \<and> (shouldSend c rc (addPrompt msg s) \<and> prompter c rc = Some (Generator g)
           \<and> g msg ((args st)(arg_id this \<mapsto> VList (values' s)))
                \<lparr>d_retries = rc, d_infinite = True, d_message = prev,
                 d_word = (if rc \<le> 1 + of_bool (word \<noteq> []) then word else content prev)\<rparr>
               = Inr res
          \<longrightarrow> trace (snd (startTurn env c prev rc (addPrompt msg s)))
               = trace s @ [AddPrompt]
                 @ sendEvents (if commandUtil env then Util else Channel) (map_option joined res))
       \<and> (startTurn env c prev rc (addPrompt msg s) = (Inr sent, s1)
           \<and> awaitReply c sent s1 = (Reply input, s2)
           \<and> cancelWord (prompt c) = Some cw \<and> toLowerCase (content input) \<noteq> toLowerCase cw
           \<and> stopWord (prompt c) = Some sw \<and> toLowerCase (content input) \<noteq> toLowerCase sw
           \<and> cast (resolver env) (arg_type this) (content input) input
                ((args st)(arg_id this \<mapsto> VList (values' s))) = Some (Inr v)
          \<longrightarrow> collect env this msg word st
               = finish env msg
                   (if nullish v then promptOne env c input (rc + 1) s2
                    else if belowLimit (length (values' s @ [v])) (limit (prompt c))
                    then promptOne env c msg 1 (push this v s2)
                    else (Some (Inr (VList (values' s @ [v]))), push this v s2))
             \<and> args (push this v s2) = (args st)(arg_id this \<mapsto> VList (values' s @ [v])))
       \<and> (startTurn env c prev rc (addPrompt msg s) = (Inr sent, s1)
           \<and> awaitReply c sent s1 = (Reply input, s2)
           \<and> cancelWord (prompt c) = Some cw \<and> toLowerCase (content input) = toLowerCase cw
           \<and> cancel (prompt c) = Some (Generator g)
           \<and> g msg ((args st)(arg_id this \<mapsto> VList (values' s)))
                \<lparr>d_retries = rc, d_infinite = True, d_message = input, d_word = []\<rparr> = Inr res
           \<and> sendText env Channel (map_option joined res) s2 = (Inr x, s3)
          \<longrightarrow> collect env this msg word st = (Some (Inl CommandCancelled), removePrompt msg s3)
             \<and> trace s3 = trace s2 @ sendEvents Channel (map_option joined res)
             \<and> args (removePrompt msg s3) = (args st)(arg_id this \<mapsto> VList (values' s)))
       \<and> (startTurn env c prev rc (addPrompt msg s) = (Inr sent, s1)
           \<and> awaitReply c sent s1 = (Rejected TimeExpired, s2)
           \<and> timeout (prompt c) = Some (Generator g)
           \<and> g msg ((args st)(arg_id this \<mapsto> VList (values' s)))
                \<lparr>d_retries = rc, d_infinite = True, d_message = prev, d_word = []\<rparr> = Inr res
           \<and> sendText env Channel (map_option joined res) s2 = (Inr x, s3)
          \<longrightarrow> collect env this msg word st = (Some (Inl CommandCancelled), removePrompt msg s3)
             \<and> trace s3 = trace s2 @ sendEvents Channel (map_option joined res)
             \<and> args (removePrompt msg s3) = (args st)(arg_id this \<mapsto> VList (values' s)))
       \<and> args (snd (collect env this msg word st))
           = (args st)(arg_id this \<mapsto> VList (values' (snd (collect env this msg word st))))"
proof -
  let ?st0 = "collectState this True st"
  let ?A = "(args st)(arg_id this \<mapsto> VList (values' s))"
  have inf: "isInfinite c" and self: "self c = this" and msg: "message c = msg"
    and word: "commandInput c = word"
    using assms(2) by (simp_all add: assms(3) collectClosure_def)
  have st0: "collectState this (infiniteMode env this mt word) st = ?st0"
    using assms(2) by simp
  have first: "collect env this msg word st
             = finish env msg (promptOne env c msg (1 + of_bool (word \<noteq> [])) ?st0)"
    using assms(1) assms(2) by (simp add: collect_def assms(3))
  have later: "collect env this msg word st = finish env msg (promptOne env c prev rc s)"
    unfolding first using laterTurn_promptOne [OF assms(4)] by simp
  have a0: "args ?st0 = (args st)(arg_id (self c) \<mapsto> VList (values' ?st0))"
    by (simp add: collectState_def self)
  have a: "args s = ?A"
    using laterTurn_args_inv [OF inf a0 assms(4)] by (simp add: self)
  have 1: "args ?st0 = (args st)(arg_id this \<mapsto> VList [])" "trace ?st0 = trace st"
    by (simp_all add: collectState_def)
  have 5: "shouldSend c rc (addPrompt msg s) \<and> prompter c rc = Some (Generator g)
           \<and> g msg ?A
                \<lparr>d_retries = rc, d_infinite = True, d_message = prev,
                 d_word = (if rc \<le> 1 + of_bool (word \<noteq> []) then word else content prev)\<rparr>
               = Inr res
          \<longrightarrow> trace (snd (startTurn env c prev rc (addPrompt msg s)))
               = trace s @ [AddPrompt]
                 @ sendEvents (if commandUtil env then Util else Channel) (map_option joined res)"
  proof
    assume h: "shouldSend c rc (addPrompt msg s) \<and> prompter c rc = Some (Generator g)
           \<and> g msg ?A
                \<lparr>d_retries = rc, d_infinite = True, d_message = prev,
                 d_word = (if rc \<le> 1 + of_bool (word \<noteq> []) then word else content prev)\<rparr>
               = Inr res"
    have "g (message c) (args (addPrompt msg s))
          \<lparr>d_retries = rc, d_infinite = isInfinite c, d_message = prev,
           d_word = prevInput c prev rc\<rparr> = Inr res"
      using h a inf by (auto simp: msg word prevInput_def addPrompt_def split: if_splits)
    from startTurn_generator [of c rc "addPrompt msg s" g prev res env, OF _ _ this] h
    show "trace (snd (startTurn env c prev rc (addPrompt msg s)))
               = trace s @ [AddPrompt]
                 @ sendEvents (if commandUtil env then Util else Channel) (map_option joined res)"
      by (simp add: addPrompt_def)
  qed
  have 6: "startTurn env c prev rc (addPrompt msg s) = (Inr sent, s1)
           \<and> awaitReply c sent s1 = (Reply input, s2)
           \<and> cancelWord (prompt c) = Some cw \<and> toLowerCase (content input) \<noteq> toLowerCase cw
           \<and> stopWord (prompt c) = Some sw \<and> toLowerCase (content input) \<noteq> toLowerCase sw
           \<and> cast (resolver env) (arg_type this) (content input) input ?A = Some (Inr v)
          \<longrightarrow> collect env this msg word st
               = finish env msg
                   (if nullish v then promptOne env c input (rc + 1) s2
                    else if belowLimit (length (values' s @ [v])) (limit (prompt c))
                    then promptOne env c msg 1 (push this v s2)
                    else (Some (Inr (VList (values' s @ [v]))), push this v s2))
             \<and> args (push this v s2) = (args st)(arg_id this \<mapsto> VList (values' s @ [v]))"
  proof
    assume h: "startTurn env c prev rc (addPrompt msg s) = (Inr sent, s1)
           \<and> awaitReply c sent s1 = (Reply input, s2)
           \<and> cancelWord (prompt c) = Some cw \<and> toLowerCase (content input) \<noteq> toLowerCase cw
           \<and> stopWord (prompt c) = Some sw \<and> toLowerCase (content input) \<noteq> toLowerCase sw
           \<and> cast (resolver env) (arg_type this) (content input) input ?A = Some (Inr v)"
    then have h1: "startTurn env c prev rc (addPrompt (message c) s) = (Inr sent, s1)"
      and h2: "awaitReply c sent s1 = (Reply input, s2)" by (simp_all add: msg)
    have fr: "args s2 = ?A" "values' s2 = values' s"
      using turn_frame [OF h1 h2] a by simp_all
    have "promptOne env c prev rc s =
        (if nullish v then promptOne env c input (rc + 1) s2
         else if belowLimit (length (values' s @ [v])) (limit (prompt c))
         then promptOne env c msg 1 (push this v s2)
         else (Some (Inr (VList (values' s @ [v]))), push this v s2))"
      using promptOne_cast [OF h1 h2, of cw] h inf
      by (simp add: fr self msg push_def)
    then show "collect env this msg word st
               = finish env msg
                   (if nullish v then promptOne env c input (rc + 1) s2
                    else if belowLimit (length (values' s @ [v])) (limit (prompt c))
                    then promptOne env c msg 1 (push this v s2)
                    else (Some (Inr (VList (values' s @ [v]))), push this v s2))
             \<and> args (push this v s2) = (args st)(arg_id this \<mapsto> VList (values' s @ [v]))"
      unfolding later using fr by (simp add: push_def)
  qed
  have 7: "startTurn env c prev rc (addPrompt msg s) = (Inr sent, s1)
           \<and> awaitReply c sent s1 = (Reply input, s2)
           \<and> cancelWord (prompt c) = Some cw \<and> toLowerCase (content input) = toLowerCase cw
           \<and> cancel (prompt c) = Some (Generator g)
           \<and> g msg ?A
                \<lparr>d_retries = rc, d_infinite = True, d_message = input, d_word = []\<rparr> = Inr res
           \<and> sendText env Channel (map_option joined res) s2 = (Inr x, s3)
          \<longrightarrow> collect env this msg word st = (Some (Inl CommandCancelled), removePrompt msg s3)
             \<and> trace s3 = trace s2 @ sendEvents Channel (map_option joined res)
             \<and> args (removePrompt msg s3) = ?A"
  proof
    assume h: "startTurn env c prev rc (addPrompt msg s) = (Inr sent, s1)
           \<and> awaitReply c sent s1 = (Reply input, s2)
           \<and> cancelWord (prompt c) = Some cw \<and> toLowerCase (content input) = toLowerCase cw
           \<and> cancel (prompt c) = Some (Generator g)
           \<and> g msg ?A
                \<lparr>d_retries = rc, d_infinite = True, d_message = input, d_word = []\<rparr> = Inr res
           \<and> sendText env Channel (map_option joined res) s2 = (Inr x, s3)"
    then have h1: "startTurn env c prev rc (addPrompt (message c) s) = (Inr sent, s1)"
      and h2: "awaitReply c sent s1 = (Reply input, s2)"
      and h3: "cancelWord (prompt c) = Some cw" "toLowerCase (content input) = toLowerCase cw"
      and h4: "cancel (prompt c) = Some (Generator g)"
      and h5: "sendText env Channel (map_option joined res) s2 = (Inr x, s3)"
      by (simp_all add: msg)
    have fr: "args s2 = ?A" "values' s2 = values' s"
      using turn_frame [OF h1 h2] a by simp_all
    have g: "g (message c) (args s2)
          \<lparr>d_retries = rc, d_infinite = isInfinite c, d_message = input, d_word = []\<rparr> = Inr res"
      using h inf by (simp add: fr msg)
    have "promptOne env c prev rc s = (Some (Inl CommandCancelled), removePrompt msg s3)"
      using promptOne_cancel [OF h1 h2 h3] cancelled_generator [OF h4 g h5] by (simp add: msg)
    then show "collect env this msg word st = (Some (Inl CommandCancelled), removePrompt msg s3)
             \<and> trace s3 = trace s2 @ sendEvents Channel (map_option joined res)
             \<and> args (removePrompt msg s3) = ?A"
      unfolding later using sendText_ok_events [OF h5] values_sendText [OF h5] fr
      by (simp add: finish_rejects removePrompt_def)
  qed
  have 8: "startTurn env c prev rc (addPrompt msg s) = (Inr sent, s1)
           \<and> awaitReply c sent s1 = (Rejected TimeExpired, s2)
           \<and> timeout (prompt c) = Some (Generator g)
           \<and> g msg ?A
                \<lparr>d_retries = rc, d_infinite = True, d_message = prev, d_word = []\<rparr> = Inr res
           \<and> sendText env Channel (map_option joined res) s2 = (Inr x, s3)
          \<longrightarrow> collect env this msg word st = (Some (Inl CommandCancelled), removePrompt msg s3)
             \<and> trace s3 = trace s2 @ sendEvents Channel (map_option joined res)
             \<and> args (removePrompt msg s3) = ?A"
  proof
    assume h: "startTurn env c prev rc (addPrompt msg s) = (Inr sent, s1)
           \<and> awaitReply c sent s1 = (Rejected TimeExpired, s2)
           \<and> timeout (prompt c) = Some (Generator g)
           \<and> g msg ?A
                \<lparr>d_retries = rc, d_infinite = True, d_message = prev, d_word = []\<rparr> = Inr res
           \<and> sendText env Channel (map_option joined res) s2 = (Inr x, s3)"
    then have h1: "startTurn env c prev rc (addPrompt (message c) s) = (Inr sent, s1)"
      and h2: "awaitReply c sent s1 = (Rejected TimeExpired, s2)"
      and h4: "timeout (prompt c) = Some (Generator g)"
      and h5: "sendText env Channel (map_option joined res) s2 = (Inr x, s3)"
      by (simp_all add: msg)
    have fr: "args s2 = ?A" "values' s2 = values' s"
      using turn_frame [OF h1 h2] a by simp_all
    have g: "g (message c) (args s2)
          \<lparr>d_retries = rc, d_infinite = isInfinite c, d_message = prev, d_word = []\<rparr> = Inr res"
      using h inf by (simp add: fr msg)
    have "promptOne env c prev rc s = (Some (Inl CommandCancelled), removePrompt msg s3)"
      using promptOne_await_rejects [OF h1 h2] timeout_generator [OF h4 g h5] by (simp add: msg)
    then show "collect env this msg word st = (Some (Inl CommandCancelled), removePrompt msg s3)
             \<and> trace s3 = trace s2 @ sendEvents Channel (map_option joined res)
             \<and> args (removePrompt msg s3) = ?A"
      unfolding later using sendText_ok_events [OF h5] values_sendText [OF h5] fr
      by (simp add: finish_rejects removePrompt_def)
  qed
  from promptOne_args_inv [OF inf a0]
  have "args (snd (promptOne env c msg (1 + of_bool (word \<noteq> [])) ?st0))
          = (args st)(arg_id this \<mapsto>
               VList (values' (snd (promptOne env c msg (1 + of_bool (word \<noteq> [])) ?st0))))"
    by (simp add: self)
  then have 9: "args (snd (collect env this msg word st))
           = (args st)(arg_id this \<mapsto> VList (values' (snd (collect env this msg word st))))"
    unfolding first by (simp add: finish_frame)
  from first 1 a 5 6 7 8 9 show ?thesis by blast
qed

text \<open>
  At the prompt \<open>tally\<close>. After the replies \<^verbatim>\<open>x\<close> and \<^verbatim>\<open>bad\<close> one value is accumulated and
  the third turn is a retry: its retry text shows one star, and so does the cancel text when
  the next reply is \<^verbatim>\<open>cancel\<close> and the time-out text when there is none; the \<^verbatim>\<open>args\<close> left
  behind hold the one value. After the replies \<^verbatim>\<open>x\<close> and \<^verbatim>\<open>y\<close> the type function finds two
  values at the reply \<^verbatim>\<open>z\<close>, and the session returns \<^verbatim>\<open>[0, 1, 2]\<close>.
\<close>

lemma tally_retry_turn:
  "laterTurn env0 tally_closure (Suc (Suc 0))
      (user_message, 1 + of_bool ([] \<noteq> ([] :: string)),
       collectState tally True (state0 (Arrives (reply 2 ''x'') # Arrives (reply 3 ''bad'') # rest)))
    = Some (reply 3 ''bad'', 2,
        \<lparr>prompts = {(3, 7)}, inbox = rest,
         trace = [AddPrompt, Send Channel ''start'', AwaitMessages, AddPrompt, AwaitMessages],
         shouldEdit = True, lastResponse = None,
         args = [''tally'' \<mapsto> VList [VNum 0]], values' = [VNum 0]\<rparr>)"
  unfolding tally_start
  by (simp add: nextTurn_def tally_closure_simps turn_defs env0_def user_message_def reply_def
      lower_replies lower_more tally_def stars_def castFunction_def nullish_def sameWord_def
      push_def belowLimit_3)

lemma tally_third_turn:
  "laterTurn env0 tally_closure (Suc (Suc 0))
      (user_message, 1 + of_bool ([] \<noteq> ([] :: string)),
       collectState tally True (state0 (Arrives (reply 2 ''x'') # Arrives (reply 3 ''y'') # rest)))
    = Some (user_message, 1,
        \<lparr>prompts = {(3, 7)}, inbox = rest,
         trace = [AddPrompt, Send Channel ''start'', AwaitMessages, AddPrompt, AwaitMessages],
         shouldEdit = True, lastResponse = None,
         args = [''tally'' \<mapsto> VList [VNum 0, VNum 1]], values' = [VNum 0, VNum 1]\<rparr>)"
  unfolding tally_start
  by (simp add: nextTurn_def tally_closure_simps turn_defs env0_def user_message_def reply_def
      lower_replies lower_more tally_def stars_def castFunction_def nullish_def sameWord_def
      push_def belowLimit_3)

theorem infinite_values_stored_in_args_witness:
  "trace (snd (startTurn env0 tally_closure (reply 3 ''bad'') 2
       (addPrompt user_message
          \<lparr>prompts = {(3, 7)}, inbox = [Arrives (reply 4 ''cancel'')],
           trace = [AddPrompt, Send Channel ''start'', AwaitMessages, AddPrompt, AwaitMessages],
           shouldEdit = True, lastResponse = None,
           args = [''tally'' \<mapsto> VList [VNum 0]], values' = [VNum 0]\<rparr>)))
     = [AddPrompt, Send Channel ''start'', AwaitMessages, AddPrompt, AwaitMessages, AddPrompt,
        Send Channel ''retry*'']
   \<and> collect env0 tally user_message []
        (state0 [Arrives (reply 2 ''x''), Arrives (reply 3 ''bad''), Arrives (reply 4 ''cancel'')])
     = (Some (Inl CommandCancelled),
        \<lparr>prompts = {}, inbox = [],
         trace = [AddPrompt, Send Channel ''start'', AwaitMessages, AddPrompt, AwaitMessages,
                  AddPrompt, Send Channel ''retry*'', AwaitMessages, Send Channel ''cancel*'',
                  RemovePrompt],
         shouldEdit = True, lastResponse = None,
         args = [''tally'' \<mapsto> VList [VNum 0]], values' = [VNum 0]\<rparr>)
   \<and> collect env0 tally user_message []
        (state0 [Arrives (reply 2 ''x''), Arrives (reply 3 ''bad'')])
     = (Some (Inl CommandCancelled),
        \<lparr>prompts = {}, inbox = [],
         trace = [AddPrompt, Send Channel ''start'', AwaitMessages, AddPrompt, AwaitMessages,
                  AddPrompt, Send Channel ''retry*'', AwaitMessages, Send Channel ''timeout*'',
                  RemovePrompt],
         shouldEdit = True, lastResponse = None,
         args = [''tally'' \<mapsto> VList [VNum 0]], values' = [VNum 0]\<rparr>)
   \<and> collect env0 tally user_message []
        (state0 [Arrives (reply 2 ''x''), Arrives (reply 3 ''y''), Arrives (reply 4 ''z'')])
     = (Some (Inr (VList [VNum 0, VNum 1, VNum 2])),
        \<lparr>prompts = {}, inbox = [],
         trace = [AddPrompt, Send Channel ''start'', AwaitMessages, AddPrompt, AwaitMessages,
                  AddPrompt, AwaitMessages, RemovePrompt],
         shouldEdit = True, lastResponse = None,
         args = [''tally'' \<mapsto> VList [VNum 0, VNum 1, VNum 2]],
         values' = [VNum 0, VNum 1, VNum 2]\<rparr>)"
proof -
  let ?T = "[AddPrompt, Send Channel ''start'', AwaitMessages, AddPrompt, AwaitMessages]"
  let ?s = "\<lambda>inb tr vs. \<lparr>prompts = {(3, 7)}, inbox = inb, trace = tr, shouldEdit = True,
         lastResponse = None, args = [''tally'' \<mapsto> VList vs], values' = vs\<rparr>"
  let ?g = "\<lambda>label (m::message) (as::prev_args) (d::prompt_data). case as ''tally'' of
        Some (VList vs) \<Rightarrow> (Inr (Some (Str (label @ replicate (length vs) (CHR ''*''))))
                             :: thrown + prompt_text option)
      | _ \<Rightarrow> Inr (Some (Str (label @ ''?'')))"
  note retry = tally_retry_turn
  note sites = infinite_values_stored_in_args [OF tally_mode(1) tally_mode(2) tally_closure_def]
  note start_site = sites [OF retry, THEN conjunct2, THEN conjunct2, THEN conjunct2,
      THEN conjunct2, THEN conjunct1, rule_format]
  note cast_site = sites [OF tally_third_turn, THEN conjunct2, THEN conjunct2, THEN conjunct2,
      THEN conjunct2, THEN conjunct2, THEN conjunct1, rule_format]
  note cancel_site = sites [OF retry, THEN conjunct2, THEN conjunct2, THEN conjunct2,
      THEN conjunct2, THEN conjunct2, THEN conjunct2, THEN conjunct1, rule_format]
  note timeout_site = sites [OF retry, THEN conjunct2, THEN conjunct2, THEN conjunct2,
      THEN conjunct2, THEN conjunct2, THEN conjunct2, THEN conjunct2, THEN conjunct1,
      rule_format]
  have A: "trace (snd (startTurn env0 tally_closure (reply 3 ''bad'') 2
              (addPrompt user_message (?s [Arrives (reply 4 ''cancel'')] ?T [VNum 0]))))
           = trace (?s [Arrives (reply 4 ''cancel'')] ?T [VNum 0]) @ [AddPrompt]
             @ sendEvents (if commandUtil env0 then Util else Channel)
                 (map_option joined (Some (Str ''retry*'')))"
    by (rule start_site [where g = "?g ''retry''"])
       (simp add: tally_closure_simps shouldSend_def prompter_def stars_def state0_def tally_id)
  have B: "collect env0 tally user_message []
        (state0 [Arrives (reply 2 ''x''), Arrives (reply 3 ''bad''), Arrives (reply 4 ''cancel'')])
     = (Some (Inl CommandCancelled),
        removePrompt user_message
          (?s [] (?T @ [AddPrompt, Send Channel ''retry*'', AwaitMessages,
                        Send Channel ''cancel*'']) [VNum 0]))"
    by (rule conjunct1 [OF cancel_site [where g = "?g ''cancel''" and sent = "Some 106" and cw = "''cancel''"
          and ?s1.0 = "?s [Arrives (reply 4 ''cancel'')] (?T @ [AddPrompt, Send Channel ''retry*''])
                         [VNum 0]"
          and input = "reply 4 ''cancel''"
          and ?s2.0 = "?s [] (?T @ [AddPrompt, Send Channel ''retry*'', AwaitMessages]) [VNum 0]"
          and x = "Some 108" and res = "Some (Str ''cancel*'')"]])
       (simp add: tally_closure_simps turn_defs env0_def user_message_def reply_def state0_def
          lower_replies stars_def tally_id)
  have C: "collect env0 tally user_message []
        (state0 [Arrives (reply 2 ''x''), Arrives (reply 3 ''bad'')])
     = (Some (Inl CommandCancelled),
        removePrompt user_message
          (?s [] (?T @ [AddPrompt, Send Channel ''retry*'', AwaitMessages,
                        Send Channel ''timeout*'']) [VNum 0]))"
    by (rule conjunct1 [OF timeout_site [where g = "?g ''timeout''" and sent = "Some 106"
          and ?s1.0 = "?s [] (?T @ [AddPrompt, Send Channel ''retry*'']) [VNum 0]"
          and ?s2.0 = "?s [] (?T @ [AddPrompt, Send Channel ''retry*'', AwaitMessages]) [VNum 0]"
          and x = "Some 108" and res = "Some (Str ''timeout*'')"]])
       (simp add: tally_closure_simps turn_defs env0_def user_message_def reply_def state0_def
          stars_def tally_id)
  have D0: "startTurn env0 tally_closure user_message 1
               (addPrompt user_message (?s [Arrives (reply 4 ''z'')] ?T [VNum 0, VNum 1]))
             = (Inr None, ?s [Arrives (reply 4 ''z'')] (?T @ [AddPrompt]) [VNum 0, VNum 1])
           \<and> awaitReply tally_closure None
                 (?s [Arrives (reply 4 ''z'')] (?T @ [AddPrompt]) [VNum 0, VNum 1])
               = (Reply (reply 4 ''z''), ?s [] (?T @ [AddPrompt, AwaitMessages]) [VNum 0, VNum 1])
           \<and> cancelWord (prompt tally_closure) = Some ''cancel''
           \<and> toLowerCase (content (reply 4 ''z'')) \<noteq> toLowerCase ''cancel''
           \<and> stopWord (prompt tally_closure) = Some ''stop''
           \<and> toLowerCase (content (reply 4 ''z'')) \<noteq> toLowerCase ''stop''
           \<and> cast (resolver env0) (arg_type tally) (content (reply 4 ''z'')) (reply 4 ''z'')
                 ((args (state0 [Arrives (reply 2 ''x''), Arrives (reply 3 ''y''),
                                 Arrives (reply 4 ''z'')]))
                    (arg_id tally \<mapsto> VList (values' (?s [Arrives (reply 4 ''z'')] ?T
                                                         [VNum 0, VNum 1]))))
               = Some (Inr (VNum 2))"
    by (simp add: tally_closure_simps turn_defs env0_def user_message_def reply_def state0_def
          lower_replies tally_def castFunction_def nullish_def)
  have D: "collect env0 tally user_message []
        (state0 [Arrives (reply 2 ''x''), Arrives (reply 3 ''y''), Arrives (reply 4 ''z'')])
     = (Some (Inr (VList [VNum 0, VNum 1, VNum 2])),
        removePrompt user_message
          (push tally (VNum 2) (?s [] (?T @ [AddPrompt, AwaitMessages]) [VNum 0, VNum 1])))"
    using conjunct1 [OF cast_site [OF D0]]
    by (simp add: nullish_def tally_closure_simps belowLimit_3 finish_def env0_def)
  from A B C D show ?thesis
    by (simp add: sendEvents_def env0_def removePrompt_def user_message_def nullish_def
        tally_closure_simps belowLimit_3 finish_def push_def tally_def)
qed

section \<open>Cancellation and failures\<close>

text \<open>
  C7, as the claim states it, fails when the cancel text cannot be sent: the rejection of
  \<^verbatim>\<open>message.channel.send(cancelText)\<close> is an \<^verbatim>\<open>Error\<close>, the \<^verbatim>\<open>catch\<close> block throws it on, and
  \<^verbatim>\<open>removePrompt\<close> is never reached. The session ends with that error, not with the
  cancellation signal, and the registry still holds the context.
\<close>

theorem cancel_send_fails_counterexample:
  "toLowerCase (content (reply 2 ''cancel'')) = toLowerCase ''cancel''
   \<and> cancelWord (mergedPrompt env_cancel_fails yes_no) = Some ''cancel''
   \<and> fst (collect env_cancel_fails yes_no user_message [] (state0 [Arrives (reply 2 ''cancel'')]))
       = Some (Inl (ErrorObj ''Missing Permissions''))
   \<and> (channel user_message, author user_message)
       \<in> prompts (snd (collect env_cancel_fails yes_no user_message []
                          (state0 [Arrives (reply 2 ''cancel'')])))"
  by (simp add: engine_defs input_defs yes_no_def env_cancel_fails_def lower_replies)

text \<open>
  C7, amended: on any turn (any previous message, any \<^verbatim>\<open>retryCount\<close>, any state), when the
  reply equals the cancel word without regard to case and the cancel text, if there is
  one, is resolved and sent without a failure, the turn ends with the cancellation signal,
  the registry no longer holds the context, and after the reply was awaited the trace has
  the cancel text, if one was sent, and then one \<open>RemovePrompt\<close> and nothing else: the
  signal passes the \<^verbatim>\<open>catch\<close> block untouched, no time-out text is sent.
\<close>

theorem cancel_word_cancels:
  assumes "startTurn env c prev rc (addPrompt (message c) st) = (Inr sent, st1)"
    and "awaitReply c sent st1 = (Reply input, st2)"
    and "cancelWord (prompt c) = Some cw"
    and "toLowerCase (content input) = toLowerCase cw"
    and "getText (message c) (args st2) (isInfinite c) (cancel (prompt c)) rc input [] = Inr cancelText"
    and "sendText env Channel cancelText st2 = (Inr s, st3)"
  shows "promptOne env c prev rc st = (Some (Inl CommandCancelled), removePrompt (message c) st3)
       \<and> (channel (message c), author (message c)) \<notin> prompts (removePrompt (message c) st3)
       \<and> trace (removePrompt (message c) st3)
           = trace st2
             @ (case cancelText of None \<Rightarrow> [] | Some t \<Rightarrow> if t = [] then [] else [Send Channel t])
             @ [RemovePrompt]"
  using promptOne_cancel [OF assms(1) assms(2) assms(3) assms(4)] assms(5) assms(6)
    sendText_trace [OF assms(6)]
  by (simp add: cancelled_def catchBlock_cancel removePrompt_def)

text \<open>
  At the reply \<^verbatim>\<open>Cancel\<close> on the first turn, at the reply \<^verbatim>\<open>CANCEL\<close> on a retry turn after
  the reply \<^verbatim>\<open>maybe\<close>, and at the prompt \<open>pick_french\<close>, which has no cancel text, and the
  reply \<open>ARRET\<close>, its cancel word in capitals.
\<close>

theorem cancel_word_cancels_witness:
  "promptOne env0 yes_no_closure user_message 1 (state0 [Arrives (reply 2 ''Cancel'')])
     = (Some (Inl CommandCancelled),
        (state0 [])\<lparr>trace := [AddPrompt, Send Channel ''yes or no?'', AwaitMessages,
                              Send Channel ''Cancelled.'', RemovePrompt]\<rparr>)
   \<and> fst (promptOne env0 yes_no_closure (reply 2 ''maybe'') 2
        ((state0 [Arrives (reply 3 ''CANCEL'')])\<lparr>prompts := {(3, 7)}\<rparr>))
     = Some (Inl CommandCancelled)
   \<and> (3, 7) \<notin> prompts (snd (promptOne env0 yes_no_closure (reply 2 ''maybe'') 2
        ((state0 [Arrives (reply 3 ''CANCEL'')])\<lparr>prompts := {(3, 7)}\<rparr>)))
   \<and> promptOne env0 french_closure user_message 1 (state0 [Arrives (reply 2 ARRET)])
     = (Some (Inl CommandCancelled),
        (state0 [])\<lparr>trace := [AddPrompt, Send Channel ''Pick three.'', AwaitMessages,
                              RemovePrompt]\<rparr>)"
proof -
  let ?sl = "state0 [Arrives (reply 2 ARRET)]"
  let ?sl1 = "(state0 [Arrives (reply 2 ARRET)])\<lparr>prompts := {(3, 7)},
                 trace := [AddPrompt, Send Channel ''Pick three.'']\<rparr>"
  let ?sl2 = "(state0 [])\<lparr>prompts := {(3, 7)},
                 trace := [AddPrompt, Send Channel ''Pick three.'', AwaitMessages]\<rparr>"
  have L: "promptOne env0 french_closure user_message 1 ?sl
             = (Some (Inl CommandCancelled), removePrompt (message french_closure) ?sl2)
       \<and> (channel (message french_closure), author (message french_closure))
            \<notin> prompts (removePrompt (message french_closure) ?sl2)
       \<and> trace (removePrompt (message french_closure) ?sl2)
           = trace ?sl2
             @ (case None of None \<Rightarrow> []
                | Some t \<Rightarrow> if t = [] then [] else [Send Channel t])
             @ [RemovePrompt]"
    by (rule cancel_word_cancels [where sent = "Some 101" and cw = arret and ?st1.0 = ?sl1
          and input = "reply 2 ARRET" and s = None])
       (simp_all add: french_closure_simps startTurn_def shouldSend_def prompter_def prevInput_def
          addPrompt_def awaitReply_def accepts_def getText_def sendText_def send_def
          input_defs lower_latin1)
  from L have latin: "promptOne env0 french_closure user_message 1 ?sl
     = (Some (Inl CommandCancelled),
        (state0 [])\<lparr>trace := [AddPrompt, Send Channel ''Pick three.'', AwaitMessages,
                              RemovePrompt]\<rparr>)"
    by (simp add: french_closure_simps removePrompt_def state0_def user_message_def)
  let ?st = "state0 [Arrives (reply 2 ''Cancel'')]"
  let ?st1 = "(state0 [Arrives (reply 2 ''Cancel'')])\<lparr>prompts := {(3, 7)},
                 trace := [AddPrompt, Send Channel ''yes or no?'']\<rparr>"
  let ?st2 = "(state0 [])\<lparr>prompts := {(3, 7)},
                 trace := [AddPrompt, Send Channel ''yes or no?'', AwaitMessages]\<rparr>"
  let ?st3 = "(state0 [])\<lparr>prompts := {(3, 7)},
                 trace := [AddPrompt, Send Channel ''yes or no?'', AwaitMessages,
                           Send Channel ''Cancelled.'']\<rparr>"
  have A: "promptOne env0 yes_no_closure user_message 1 ?st
             = (Some (Inl CommandCancelled), removePrompt (message yes_no_closure) ?st3)
       \<and> (channel (message yes_no_closure), author (message yes_no_closure))
            \<notin> prompts (removePrompt (message yes_no_closure) ?st3)
       \<and> trace (removePrompt (message yes_no_closure) ?st3)
           = trace ?st2
             @ (case Some ''Cancelled.'' of None \<Rightarrow> []
                | Some t \<Rightarrow> if t = [] then [] else [Send Channel t])
             @ [RemovePrompt]"
    by (rule cancel_word_cancels [where sent = "Some 101" and cw = "''cancel''" and ?st1.0 = ?st1
          and input = "reply 2 ''Cancel''" and s = "Some 103"])
       (simp_all add: yes_no_closure_simps startTurn_def shouldSend_def prompter_def prevInput_def
          addPrompt_def awaitReply_def accepts_def getText_def sendText_def send_def
          input_defs lower_replies)
  let ?su = "(state0 [Arrives (reply 3 ''CANCEL'')])\<lparr>prompts := {(3, 7)}\<rparr>"
  let ?su1 = "(state0 [Arrives (reply 3 ''CANCEL'')])\<lparr>prompts := {(3, 7)},
                 trace := [AddPrompt, Send Channel ''retry !!'']\<rparr>"
  let ?su2 = "(state0 [])\<lparr>prompts := {(3, 7)},
                 trace := [AddPrompt, Send Channel ''retry !!'', AwaitMessages]\<rparr>"
  let ?su3 = "(state0 [])\<lparr>prompts := {(3, 7)},
                 trace := [AddPrompt, Send Channel ''retry !!'', AwaitMessages,
                           Send Channel ''Cancelled.'']\<rparr>"
  have B: "promptOne env0 yes_no_closure (reply 2 ''maybe'') 2 ?su
             = (Some (Inl CommandCancelled), removePrompt (message yes_no_closure) ?su3)
       \<and> (channel (message yes_no_closure), author (message yes_no_closure))
            \<notin> prompts (removePrompt (message yes_no_closure) ?su3)
       \<and> trace (removePrompt (message yes_no_closure) ?su3)
           = trace ?su2
             @ (case Some ''Cancelled.'' of None \<Rightarrow> []
                | Some t \<Rightarrow> if t = [] then [] else [Send Channel t])
             @ [RemovePrompt]"
    by (rule cancel_word_cancels [where sent = "Some 101" and cw = "''cancel''" and ?st1.0 = ?su1
          and input = "reply 3 ''CANCEL''" and s = "Some 103"])
       (simp_all add: yes_no_closure_simps startTurn_def shouldSend_def prompter_def prevInput_def
          addPrompt_def awaitReply_def accepts_def getText_def sendText_def send_def
          input_defs lower_replies yes_no_closure_def collectClosure_def mergedPrompt_def
          assign_def override_def no_options_def yes_no_def numeral_2_eq_2)
  from A B have plain:
    "promptOne env0 yes_no_closure user_message 1 (state0 [Arrives (reply 2 ''Cancel'')])
       = (Some (Inl CommandCancelled),
          (state0 [])\<lparr>trace := [AddPrompt, Send Channel ''yes or no?'', AwaitMessages,
                                Send Channel ''Cancelled.'', RemovePrompt]\<rparr>)
     \<and> fst (promptOne env0 yes_no_closure (reply 2 ''maybe'') 2
          ((state0 [Arrives (reply 3 ''CANCEL'')])\<lparr>prompts := {(3, 7)}\<rparr>))
       = Some (Inl CommandCancelled)
     \<and> (3, 7) \<notin> prompts (snd (promptOne env0 yes_no_closure (reply 2 ''maybe'') 2
          ((state0 [Arrives (reply 3 ''CANCEL'')])\<lparr>prompts := {(3, 7)}\<rparr>)))"
    by (simp add: yes_no_closure_simps removePrompt_def state0_def user_message_def)
  from plain latin show ?thesis by blast
qed

lemma promptOne_cancel_text_fails:
  assumes "startTurn env c prev rc (addPrompt (message c) st) = (Inr sent, st1)"
    and "awaitReply c sent st1 = (Reply input, st2)"
    and "cancelWord (prompt c) = Some cw"
    and "toLowerCase (content input) = toLowerCase cw"
    and "getText (message c) (args st2) (isInfinite c) (cancel (prompt c)) rc input [] = Inl (ErrorObj x)"
  shows "promptOne env c prev rc st = (Some (Inl (ErrorObj x)), st2)"
  using promptOne_cancel [OF assms(1) assms(2) assms(3) assms(4)] assms(5)
  by (simp add: cancelled_def catchBlock_error)

lemma promptOne_cancel_send_fails:
  assumes "startTurn env c prev rc (addPrompt (message c) st) = (Inr sent, st1)"
    and "awaitReply c sent st1 = (Reply input, st2)"
    and "cancelWord (prompt c) = Some cw"
    and "toLowerCase (content input) = toLowerCase cw"
    and "getText (message c) (args st2) (isInfinite c) (cancel (prompt c)) rc input [] = Inr cancelText"
    and "sendText env Channel cancelText st2 = (Inl (ErrorObj x), st3)"
  shows "promptOne env c prev rc st = (Some (Inl (ErrorObj x)), st3)"
  using promptOne_cancel [OF assms(1) assms(2) assms(3) assms(4)] assms(5) assms(6)
  by (simp add: cancelled_def catchBlock_error)

lemma promptOne_cancel_word_fails:
  assumes "startTurn env c prev rc (addPrompt (message c) st) = (Inr sent, st1)"
    and "awaitReply c sent st1 = (Reply input, st2)"
    and "sameWord (content input) (cancelWord (prompt c)) = Inl (ErrorObj x)"
  shows "promptOne env c prev rc st = (Some (Inl (ErrorObj x)), st2)"
  using assms by (subst promptOne.simps) (simp add: catchBlock_error)

lemma promptOne_stop_word_fails:
  assumes "startTurn env c prev rc (addPrompt (message c) st) = (Inr sent, st1)"
    and "awaitReply c sent st1 = (Reply input, st2)"
    and "cancelWord (prompt c) = Some cw"
    and "toLowerCase (content input) \<noteq> toLowerCase cw"
    and "isInfinite c"
    and "sameWord (content input) (stopWord (prompt c)) = Inl (ErrorObj x)"
  shows "promptOne env c prev rc st = (Some (Inl (ErrorObj x)), st2)"
  using assms by (subst promptOne.simps) (simp add: catchBlock_error sameWord_def)

lemma promptOne_cast_fails:
  assumes "startTurn env c prev rc (addPrompt (message c) st) = (Inr sent, st1)"
    and "awaitReply c sent st1 = (Reply input, st2)"
    and "cancelWord (prompt c) = Some cw"
    and "toLowerCase (content input) \<noteq> toLowerCase cw"
    and "isInfinite c \<Longrightarrow> \<exists>sw. stopWord (prompt c) = Some sw \<and> toLowerCase (content input) \<noteq> toLowerCase sw"
    and "cast (resolver env) (arg_type (self c)) (content input) input (args st2) = Some (Inl (ErrorObj x))"
  shows "promptOne env c prev rc st = (Some (Inl (ErrorObj x)), st2)"
  using promptOne_cast [OF assms(1) assms(2) assms(3) assms(4) assms(5)] assms(6)
  by (simp add: catchBlock_error)

text \<open>
  C8, as the claim states it, fails for a failure that is not an instance of \<^verbatim>\<open>Error\<close>. The
  type function throws the string \<^verbatim>\<open>'boom'\<close>, which is neither the time-out nor the
  cancellation symbol; the \<^verbatim>\<open>catch\<close> block takes everything that is neither an \<^verbatim>\<open>Error\<close> nor
  the symbol for the time-out: it sends the time-out text and throws the cancellation
  symbol.
\<close>

theorem non_error_failure_counterexample:
  "cast (resolver env0) (arg_type fragile) ''boom'' (reply 2 ''boom'') (args (state0 []))
     = Some (Inl (NonError ''boom''))
   \<and> fst (collect env0 fragile user_message [] (state0 [Arrives (reply 2 ''boom'')]))
       = Some (Inl CommandCancelled)
   \<and> trace (snd (collect env0 fragile user_message [] (state0 [Arrives (reply 2 ''boom'')])))
       = [AddPrompt, Send Channel ''Say it.'', AwaitMessages, Send Channel ''Too slow.'',
          RemovePrompt]"
  by (simp add: engine_defs input_defs fragile_def lower_replies)

text \<open>
  C8, amended. Take any turn that a session run by \<^verbatim>\<open>collect\<close> comes to, after any number
  of turns. A failure that is an instance of \<^verbatim>\<open>Error\<close> and is raised in that turn is what
  \<^verbatim>\<open>collect\<close> ends with, unchanged, wherever it is raised: while the prompt text is resolved
  or sent, while the reply is awaited, while the reply is compared with the cancel word or
  the stop word (with a word that is missing, \<^verbatim>\<open>toLowerCase\<close> fails with a \<^verbatim>\<open>TypeError\<close>),
  while the cancel text is resolved or sent, while the reply is cast, or while the time-out
  text is resolved or sent. Where the failure is raised
  outside the \<^verbatim>\<open>try\<close> block (while the prompt text is resolved or sent, before the \<^verbatim>\<open>try\<close>, or
  while the time-out text is resolved or sent, in the \<^verbatim>\<open>catch\<close> block), \<^verbatim>\<open>collect\<close> ends with
  it, unchanged, whatever it is, an instance of \<^verbatim>\<open>Error\<close> or not. Only a thrown value that is
  neither an instance of \<^verbatim>\<open>Error\<close> nor the cancellation symbol and is raised inside the
  \<^verbatim>\<open>try\<close> block (while the reply is awaited, while the cancel text is resolved or sent, or
  while the reply is cast) is not handed on: \<^verbatim>\<open>collect\<close> then ends as the \<^verbatim>\<open>catch\<close> block does
  on the time-out.
\<close>

theorem errors_are_rethrown:
  assumes "matchType this msg (args st0) = Inr mt"
    and "c = collectClosure env this msg word mt"
    and "laterTurn env c n
           (msg, 1 + of_bool (word \<noteq> []), collectState this (infiniteMode env this mt word) st0)
         = Some (prev, rc, st)"
  shows
  "(startTurn env c prev rc (addPrompt (message c) st) = (Inl e, st1)
      \<longrightarrow> collect env this msg word st0 = (Some (Inl e), st1))
   \<and> (startTurn env c prev rc (addPrompt (message c) st) = (Inr sent, st1)
       \<and> awaitReply c sent st1 = (Rejected (ErrorObj x), st2)
      \<longrightarrow> collect env this msg word st0 = (Some (Inl (ErrorObj x)), st2))
   \<and> (startTurn env c prev rc (addPrompt (message c) st) = (Inr sent, st1)
       \<and> awaitReply c sent st1 = (Reply input, st2)
       \<and> cancelWord (prompt c) = Some cw \<and> toLowerCase (content input) = toLowerCase cw
       \<and> getText (message c) (args st2) (isInfinite c) (cancel (prompt c)) rc input []
           = Inl (ErrorObj x)
      \<longrightarrow> collect env this msg word st0 = (Some (Inl (ErrorObj x)), st2))
   \<and> (startTurn env c prev rc (addPrompt (message c) st) = (Inr sent, st1)
       \<and> awaitReply c sent st1 = (Reply input, st2)
       \<and> cancelWord (prompt c) = Some cw \<and> toLowerCase (content input) = toLowerCase cw
       \<and> getText (message c) (args st2) (isInfinite c) (cancel (prompt c)) rc input []
           = Inr cancelText
       \<and> sendText env Channel cancelText st2 = (Inl (ErrorObj x), st3)
      \<longrightarrow> collect env this msg word st0 = (Some (Inl (ErrorObj x)), st3))
   \<and> (startTurn env c prev rc (addPrompt (message c) st) = (Inr sent, st1)
       \<and> awaitReply c sent st1 = (Reply input, st2)
       \<and> cancelWord (prompt c) = Some cw \<and> toLowerCase (content input) \<noteq> toLowerCase cw
       \<and> (isInfinite c \<longrightarrow> stopWord (prompt c) = Some sw
                              \<and> toLowerCase (content input) \<noteq> toLowerCase sw)
       \<and> cast (resolver env) (arg_type (self c)) (content input) input (args st2)
           = Some (Inl (ErrorObj x))
      \<longrightarrow> collect env this msg word st0 = (Some (Inl (ErrorObj x)), st2))
   \<and> (startTurn env c prev rc (addPrompt (message c) st) = (Inr sent, st1)
       \<and> awaitReply c sent st1 = (Rejected TimeExpired, st2)
       \<and> getText (message c) (args st2) (isInfinite c) (timeout (prompt c)) rc prev [] = Inl e
      \<longrightarrow> collect env this msg word st0 = (Some (Inl e), st2))
   \<and> (startTurn env c prev rc (addPrompt (message c) st) = (Inr sent, st1)
       \<and> awaitReply c sent st1 = (Rejected TimeExpired, st2)
       \<and> getText (message c) (args st2) (isInfinite c) (timeout (prompt c)) rc prev []
           = Inr timeoutText
       \<and> sendText env Channel timeoutText st2 = (Inl e, st3)
      \<longrightarrow> collect env this msg word st0 = (Some (Inl e), st3))
   \<and> (startTurn env c prev rc (addPrompt (message c) st) = (Inr sent, st1)
       \<and> awaitReply c sent st1 = (Rejected err, st2)
       \<and> \<not> instanceofError err \<and> err \<noteq> CommandCancelled
      \<longrightarrow> collect env this msg word st0 = catchBlock env c prev rc TimeExpired st2)
   \<and> (startTurn env c prev rc (addPrompt (message c) st) = (Inr sent, st1)
       \<and> awaitReply c sent st1 = (Reply input, st2)
       \<and> cancelWord (prompt c) = Some cw \<and> toLowerCase (content input) = toLowerCase cw
       \<and> getText (message c) (args st2) (isInfinite c) (cancel (prompt c)) rc input [] = Inl err
       \<and> \<not> instanceofError err \<and> err \<noteq> CommandCancelled
      \<longrightarrow> collect env this msg word st0 = catchBlock env c prev rc TimeExpired st2)
   \<and> (startTurn env c prev rc (addPrompt (message c) st) = (Inr sent, st1)
       \<and> awaitReply c sent st1 = (Reply input, st2)
       \<and> cancelWord (prompt c) = Some cw \<and> toLowerCase (content input) = toLowerCase cw
       \<and> getText (message c) (args st2) (isInfinite c) (cancel (prompt c)) rc input []
           = Inr cancelText
       \<and> sendText env Channel cancelText st2 = (Inl err, st3)
       \<and> \<not> instanceofError err \<and> err \<noteq> CommandCancelled
      \<longrightarrow> collect env this msg word st0 = catchBlock env c prev rc TimeExpired st3)
   \<and> (startTurn env c prev rc (addPrompt (message c) st) = (Inr sent, st1)
       \<and> awaitReply c sent st1 = (Reply input, st2)
       \<and> cancelWord (prompt c) = Some cw \<and> toLowerCase (content input) \<noteq> toLowerCase cw
       \<and> (isInfinite c \<longrightarrow> stopWord (prompt c) = Some sw
                              \<and> toLowerCase (content input) \<noteq> toLowerCase sw)
       \<and> cast (resolver env) (arg_type (self c)) (content input) input (args st2)
           = Some (Inl err)
       \<and> \<not> instanceofError err \<and> err \<noteq> CommandCancelled
      \<longrightarrow> collect env this msg word st0 = catchBlock env c prev rc TimeExpired st2)
   \<and> (startTurn env c prev rc (addPrompt (message c) st) = (Inr sent, st1)
       \<and> awaitReply c sent st1 = (Reply input, st2)
       \<and> sameWord (content input) (cancelWord (prompt c)) = Inl (ErrorObj x)
      \<longrightarrow> collect env this msg word st0 = (Some (Inl (ErrorObj x)), st2))
   \<and> (startTurn env c prev rc (addPrompt (message c) st) = (Inr sent, st1)
       \<and> awaitReply c sent st1 = (Reply input, st2)
       \<and> cancelWord (prompt c) = Some cw \<and> toLowerCase (content input) \<noteq> toLowerCase cw
       \<and> isInfinite c
       \<and> sameWord (content input) (stopWord (prompt c)) = Inl (ErrorObj x)
      \<longrightarrow> collect env this msg word st0 = (Some (Inl (ErrorObj x)), st2))"
proof -
  have later: "collect env this msg word st0 = finish env msg (promptOne env c prev rc st)"
    unfolding assms(2) by (rule collect_laterTurn [OF assms(1) assms(3) [unfolded assms(2)]])
  have 1: "startTurn env c prev rc (addPrompt (message c) st) = (Inl e, st1)
      \<longrightarrow> collect env this msg word st0 = (Some (Inl e), st1)"
    unfolding later by (simp add: promptOne_start_fails finish_rejects)
  have 2: "startTurn env c prev rc (addPrompt (message c) st) = (Inr sent, st1)
       \<and> awaitReply c sent st1 = (Rejected (ErrorObj x), st2)
      \<longrightarrow> collect env this msg word st0 = (Some (Inl (ErrorObj x)), st2)"
    unfolding later by (simp add: promptOne_await_rejects catchBlock_error finish_rejects)
  have 3: "startTurn env c prev rc (addPrompt (message c) st) = (Inr sent, st1)
       \<and> awaitReply c sent st1 = (Reply input, st2)
       \<and> cancelWord (prompt c) = Some cw \<and> toLowerCase (content input) = toLowerCase cw
       \<and> getText (message c) (args st2) (isInfinite c) (cancel (prompt c)) rc input []
           = Inl (ErrorObj x)
      \<longrightarrow> collect env this msg word st0 = (Some (Inl (ErrorObj x)), st2)"
    unfolding later by (simp add: promptOne_cancel_text_fails finish_rejects)
  have 4: "startTurn env c prev rc (addPrompt (message c) st) = (Inr sent, st1)
       \<and> awaitReply c sent st1 = (Reply input, st2)
       \<and> cancelWord (prompt c) = Some cw \<and> toLowerCase (content input) = toLowerCase cw
       \<and> getText (message c) (args st2) (isInfinite c) (cancel (prompt c)) rc input []
           = Inr cancelText
       \<and> sendText env Channel cancelText st2 = (Inl (ErrorObj x), st3)
      \<longrightarrow> collect env this msg word st0 = (Some (Inl (ErrorObj x)), st3)"
    unfolding later by (simp add: promptOne_cancel_send_fails finish_rejects)
  have 5: "startTurn env c prev rc (addPrompt (message c) st) = (Inr sent, st1)
       \<and> awaitReply c sent st1 = (Reply input, st2)
       \<and> cancelWord (prompt c) = Some cw \<and> toLowerCase (content input) \<noteq> toLowerCase cw
       \<and> (isInfinite c \<longrightarrow> stopWord (prompt c) = Some sw
                              \<and> toLowerCase (content input) \<noteq> toLowerCase sw)
       \<and> cast (resolver env) (arg_type (self c)) (content input) input (args st2)
           = Some (Inl (ErrorObj x))
      \<longrightarrow> collect env this msg word st0 = (Some (Inl (ErrorObj x)), st2)"
    unfolding later by (simp add: promptOne_cast_fails finish_rejects)
  have 6: "startTurn env c prev rc (addPrompt (message c) st) = (Inr sent, st1)
       \<and> awaitReply c sent st1 = (Rejected TimeExpired, st2)
       \<and> getText (message c) (args st2) (isInfinite c) (timeout (prompt c)) rc prev [] = Inl e
      \<longrightarrow> collect env this msg word st0 = (Some (Inl e), st2)"
    unfolding later
    by (simp add: promptOne_await_rejects catchBlock_timeout_text_fails finish_rejects)
  have 7: "startTurn env c prev rc (addPrompt (message c) st) = (Inr sent, st1)
       \<and> awaitReply c sent st1 = (Rejected TimeExpired, st2)
       \<and> getText (message c) (args st2) (isInfinite c) (timeout (prompt c)) rc prev []
           = Inr timeoutText
       \<and> sendText env Channel timeoutText st2 = (Inl e, st3)
      \<longrightarrow> collect env this msg word st0 = (Some (Inl e), st3)"
    unfolding later
    by (simp add: promptOne_await_rejects catchBlock_timeout_send_fails finish_rejects)
  have 8: "startTurn env c prev rc (addPrompt (message c) st) = (Inr sent, st1)
       \<and> awaitReply c sent st1 = (Rejected err, st2)
       \<and> \<not> instanceofError err \<and> err \<noteq> CommandCancelled
      \<longrightarrow> collect env this msg word st0 = catchBlock env c prev rc TimeExpired st2"
    unfolding later
    by (auto simp: promptOne_await_rejects finish_catchBlock intro: catchBlock_like_timeout)
  have 9: "startTurn env c prev rc (addPrompt (message c) st) = (Inr sent, st1)
       \<and> awaitReply c sent st1 = (Reply input, st2)
       \<and> cancelWord (prompt c) = Some cw \<and> toLowerCase (content input) = toLowerCase cw
       \<and> getText (message c) (args st2) (isInfinite c) (cancel (prompt c)) rc input [] = Inl err
       \<and> \<not> instanceofError err \<and> err \<noteq> CommandCancelled
      \<longrightarrow> collect env this msg word st0 = catchBlock env c prev rc TimeExpired st2"
    unfolding later
    by (auto simp: promptOne_cancel cancelled_def finish_catchBlock intro: catchBlock_like_timeout)
  have 10: "startTurn env c prev rc (addPrompt (message c) st) = (Inr sent, st1)
       \<and> awaitReply c sent st1 = (Reply input, st2)
       \<and> cancelWord (prompt c) = Some cw \<and> toLowerCase (content input) = toLowerCase cw
       \<and> getText (message c) (args st2) (isInfinite c) (cancel (prompt c)) rc input []
           = Inr cancelText
       \<and> sendText env Channel cancelText st2 = (Inl err, st3)
       \<and> \<not> instanceofError err \<and> err \<noteq> CommandCancelled
      \<longrightarrow> collect env this msg word st0 = catchBlock env c prev rc TimeExpired st3"
    unfolding later
    by (auto simp: promptOne_cancel cancelled_def finish_catchBlock intro: catchBlock_like_timeout)
  have 11: "startTurn env c prev rc (addPrompt (message c) st) = (Inr sent, st1)
       \<and> awaitReply c sent st1 = (Reply input, st2)
       \<and> cancelWord (prompt c) = Some cw \<and> toLowerCase (content input) \<noteq> toLowerCase cw
       \<and> (isInfinite c \<longrightarrow> stopWord (prompt c) = Some sw
                              \<and> toLowerCase (content input) \<noteq> toLowerCase sw)
       \<and> cast (resolver env) (arg_type (self c)) (content input) input (args st2)
           = Some (Inl err)
       \<and> \<not> instanceofError err \<and> err \<noteq> CommandCancelled
      \<longrightarrow> collect env this msg word st0 = catchBlock env c prev rc TimeExpired st2"
    unfolding later
    by (auto simp: promptOne_cast finish_catchBlock intro: catchBlock_like_timeout)
  have 12: "startTurn env c prev rc (addPrompt (message c) st) = (Inr sent, st1)
       \<and> awaitReply c sent st1 = (Reply input, st2)
       \<and> sameWord (content input) (cancelWord (prompt c)) = Inl (ErrorObj x)
      \<longrightarrow> collect env this msg word st0 = (Some (Inl (ErrorObj x)), st2)"
    unfolding later by (simp add: promptOne_cancel_word_fails finish_rejects)
  have 13: "startTurn env c prev rc (addPrompt (message c) st) = (Inr sent, st1)
       \<and> awaitReply c sent st1 = (Reply input, st2)
       \<and> cancelWord (prompt c) = Some cw \<and> toLowerCase (content input) \<noteq> toLowerCase cw
       \<and> isInfinite c
       \<and> sameWord (content input) (stopWord (prompt c)) = Inl (ErrorObj x)
      \<longrightarrow> collect env this msg word st0 = (Some (Inl (ErrorObj x)), st2)"
    unfolding later by (simp add: promptOne_stop_word_fails finish_rejects)
  from 1 2 3 4 5 6 7 8 9 10 11 12 13 show ?thesis by blast
qed

text \<open>
  At the prompt \<open>fragile\<close>, in the second turn of a session, after the first reply was cast to
  \<^verbatim>\<open>null\<close>: the type function throws an \<^verbatim>\<open>Error\<close> on the reply \<^verbatim>\<open>crash\<close>; the transport fails
  with an \<^verbatim>\<open>Error\<close> while the reply is awaited; the function for the retry text throws the string
  \<^verbatim>\<open>'oops'\<close>, outside the \<^verbatim>\<open>try\<close> block, and \<^verbatim>\<open>collect\<close> ends with that string; the type function
  throws the string \<^verbatim>\<open>'boom'\<close>, inside the \<^verbatim>\<open>try\<close> block, and \<^verbatim>\<open>collect\<close> ends as on the
  time-out: the time-out text is sent and the cancellation symbol thrown. And in the first
  turn of a session on a handler without a cancel word: comparing the reply with the missing
  word fails with a \<^verbatim>\<open>TypeError\<close>, which \<^verbatim>\<open>collect\<close> ends with.
\<close>

lemma fragile_second_turn:
  "w \<noteq> ''boom'' \<Longrightarrow> w \<noteq> ''crash'' \<Longrightarrow> toLowerCase w \<noteq> ''cancel''
   \<Longrightarrow> laterTurn env0 fragile_closure 1
      (user_message, 1 + of_bool ([] \<noteq> ([] :: string)),
       collectState fragile (infiniteMode env0 fragile WORD []) (state0 (Arrives (reply 2 w) # rest)))
    = Some (reply 2 w, 2,
        (state0 rest)\<lparr>prompts := {(3, 7)},
           trace := [AddPrompt, Send Channel ''Say it.'', AwaitMessages]\<rparr>)"
  unfolding fragile_start
  by (simp add: nextTurn_def fragile_closure_simps turn_defs input_defs lower_replies fragile_def
      castFunction_def nullish_def sameWord_def)

theorem errors_are_rethrown_witness:
  "collect env0 fragile user_message []
       (state0 [Arrives (reply 2 ''hm''), Arrives (reply 3 ''crash'')])
     = (Some (Inl (ErrorObj ''crash'')),
        (state0 [])\<lparr>prompts := {(3, 7)},
           trace := [AddPrompt, Send Channel ''Say it.'', AwaitMessages, AddPrompt,
                     Send Channel ''Again.'', AwaitMessages]\<rparr>)
   \<and> collect env0 fragile user_message []
       (state0 [Arrives (reply 2 ''hm''), TransportFails (ErrorObj ''ECONNRESET'')])
     = (Some (Inl (ErrorObj ''ECONNRESET'')),
        (state0 [])\<lparr>prompts := {(3, 7)},
           trace := [AddPrompt, Send Channel ''Say it.'', AwaitMessages, AddPrompt,
                     Send Channel ''Again.'', AwaitMessages]\<rparr>)
   \<and> collect env0 fragile user_message [] (state0 [Arrives (reply 2 ''oops'')])
     = (Some (Inl (NonError ''oops'')),
        (state0 [])\<lparr>prompts := {(3, 7)},
           trace := [AddPrompt, Send Channel ''Say it.'', AwaitMessages, AddPrompt]\<rparr>)
   \<and> collect env0 fragile user_message []
       (state0 [Arrives (reply 2 ''hm''), Arrives (reply 3 ''boom'')])
     = (Some (Inl CommandCancelled),
        (state0 [])\<lparr>trace := [AddPrompt, Send Channel ''Say it.'', AwaitMessages, AddPrompt,
                     Send Channel ''Again.'', AwaitMessages, Send Channel ''Too slow.'',
                     RemovePrompt]\<rparr>)
   \<and> collect env_no_words fragile user_message [] (state0 [Arrives (reply 2 ''hm'')])
     = (Some (Inl (ErrorObj ''TypeError'')),
        (state0 [])\<lparr>prompts := {(3, 7)},
           trace := [AddPrompt, Send Channel ''Say it.'', AwaitMessages]\<rparr>)"
proof -
  let ?s = "\<lambda>inb. (state0 inb)\<lparr>prompts := {(3, 7)},
           trace := [AddPrompt, Send Channel ''Say it.'', AwaitMessages]\<rparr>"
  let ?s1 = "\<lambda>inb. (state0 inb)\<lparr>prompts := {(3, 7)},
           trace := [AddPrompt, Send Channel ''Say it.'', AwaitMessages, AddPrompt,
                     Send Channel ''Again.'']\<rparr>"
  let ?s2 = "(state0 [])\<lparr>prompts := {(3, 7)},
           trace := [AddPrompt, Send Channel ''Say it.'', AwaitMessages, AddPrompt,
                     Send Channel ''Again.'', AwaitMessages]\<rparr>"
  note c = fragile_closure_simps
  have hm: "''hm'' \<noteq> ''boom''" "''hm'' \<noteq> ''crash''" "toLowerCase ''hm'' \<noteq> ''cancel''"
    by (simp_all add: lower_replies)
  have other: "''oops'' \<noteq> ''boom''" "''oops'' \<noteq> ''crash''" "toLowerCase ''oops'' \<noteq> ''cancel''"
    by (simp_all add: lower_more)
  note turn = fragile_second_turn [OF hm]
  note cast_site = errors_are_rethrown [OF fragile_mode fragile_closure_def turn, THEN conjunct2,
      THEN conjunct2, THEN conjunct2, THEN conjunct2, THEN conjunct1, rule_format]
  note await_site = errors_are_rethrown [OF fragile_mode fragile_closure_def turn, THEN conjunct2,
      THEN conjunct1, rule_format]
  note start_site = errors_are_rethrown [OF fragile_mode fragile_closure_def fragile_second_turn [OF other],
      THEN conjunct1, rule_format]
  note thrown_in_cast = errors_are_rethrown [OF fragile_mode fragile_closure_def turn, THEN conjunct2,
      THEN conjunct2, THEN conjunct2, THEN conjunct2, THEN conjunct2, THEN conjunct2,
      THEN conjunct2, THEN conjunct2, THEN conjunct2, THEN conjunct2, THEN conjunct1,
      rule_format]
  have first_turn: "laterTurn env_no_words (collectClosure env_no_words fragile user_message [] WORD) 0
      (user_message, 1 + of_bool ([] \<noteq> ([] :: string)),
       collectState fragile (infiniteMode env_no_words fragile WORD [])
         (state0 [Arrives (reply 2 ''hm'')]))
    = Some (user_message, 1, state0 [Arrives (reply 2 ''hm'')])"
    by (simp add: collectState_def infiniteMode_def mergedPrompt_def assign_def override_def
        no_options_def env_no_words_def env0_def fragile_def state0_def)
  note no_cancel_word = errors_are_rethrown [OF fragile_mode refl first_turn, THEN conjunct2,
      THEN conjunct2, THEN conjunct2, THEN conjunct2, THEN conjunct2, THEN conjunct2,
      THEN conjunct2, THEN conjunct2, THEN conjunct2, THEN conjunct2, THEN conjunct2,
      THEN conjunct1, rule_format]
  have F: "collect env_no_words fragile user_message [] (state0 [Arrives (reply 2 ''hm'')])
           = (Some (Inl (ErrorObj ''TypeError'')),
              (state0 [])\<lparr>prompts := {(3, 7)},
                 trace := [AddPrompt, Send Channel ''Say it.'', AwaitMessages]\<rparr>)"
    by (rule no_cancel_word [where sent = "Some 101" and input = "reply 2 ''hm''"
          and ?st1.0 = "(state0 [Arrives (reply 2 ''hm'')])\<lparr>prompts := {(3, 7)},
                 trace := [AddPrompt, Send Channel ''Say it.'']\<rparr>"])
       (simp add: collectClosure_def infiniteMode_def mergedPrompt_def assign_def override_def
          no_options_def env_no_words_def fragile_def turn_defs input_defs sameWord_def)
  have A: "collect env0 fragile user_message []
             (state0 [Arrives (reply 2 ''hm''), Arrives (reply 3 ''crash'')])
           = (Some (Inl (ErrorObj ''crash'')), ?s2)"
    by (rule cast_site [where sent = "Some 104" and cw = "''cancel''"
          and ?st1.0 = "?s1 [Arrives (reply 3 ''crash'')]" and input = "reply 3 ''crash''"])
       (simp add: c turn_defs input_defs lower_replies fragile_def castFunction_def)
  have B: "collect env0 fragile user_message []
             (state0 [Arrives (reply 2 ''hm''), TransportFails (ErrorObj ''ECONNRESET'')])
           = (Some (Inl (ErrorObj ''ECONNRESET'')), ?s2)"
    by (rule await_site [where sent = "Some 104"
          and ?st1.0 = "?s1 [TransportFails (ErrorObj ''ECONNRESET'')]"])
       (simp add: c turn_defs input_defs)
  have C: "collect env0 fragile user_message [] (state0 [Arrives (reply 2 ''oops'')])
           = (Some (Inl (NonError ''oops'')),
              (state0 [])\<lparr>prompts := {(3, 7)},
                 trace := [AddPrompt, Send Channel ''Say it.'', AwaitMessages, AddPrompt]\<rparr>)"
    by (rule start_site) (simp add: c turn_defs input_defs)
  have D: "collect env0 fragile user_message []
             (state0 [Arrives (reply 2 ''hm''), Arrives (reply 3 ''boom'')])
           = catchBlock env0 fragile_closure (reply 2 ''hm'') 2 TimeExpired ?s2"
    by (rule thrown_in_cast [where sent = "Some 104" and cw = "''cancel''"
          and ?st1.0 = "?s1 [Arrives (reply 3 ''boom'')]" and input = "reply 3 ''boom''"
          and err = "NonError ''boom''"])
       (simp add: c turn_defs input_defs lower_replies fragile_def castFunction_def)
  have E: "catchBlock env0 fragile_closure (reply 2 ''hm'') 2 TimeExpired ?s2
           = (Some (Inl CommandCancelled),
              (state0 [])\<lparr>trace := [AddPrompt, Send Channel ''Say it.'', AwaitMessages, AddPrompt,
                     Send Channel ''Again.'', AwaitMessages, Send Channel ''Too slow.'',
                     RemovePrompt]\<rparr>)"
    by (simp add: c catchBlock_def getText_def sendText_def send_def removePrompt_def input_defs)
  from A B C D E F show ?thesis by simp
qed

section \<open>Prompt texts\<close>

text \<open>
  C9, as the claim states it, fails for the cancel and the time-out text: their functions
  get the empty string as \<^verbatim>\<open>word\<close>, also on the first turn after the word \<^verbatim>\<open>maybe\<close> failed to
  cast. (The retry function of the same turn does get \<^verbatim>\<open>maybe\<close>.)
\<close>

theorem prompt_word_counterexample:
  "trace (snd (collect env0 echoing user_message ''maybe'' (state0 [Arrives (reply 2 ''cancel'')])))
     = [AddPrompt, Send Channel (''retry'' @ [CHR 0x0A] @ ''maybe''), AwaitMessages,
        Send Channel (''cancel'' @ [CHR 0x0A]), RemovePrompt]
   \<and> trace (snd (collect env0 echoing user_message ''maybe'' (state0 [])))
     = [AddPrompt, Send Channel (''retry'' @ [CHR 0x0A] @ ''maybe''), AwaitMessages,
        Send Channel (''timeout'' @ [CHR 0x0A]), RemovePrompt]"
  by (simp add: engine_defs input_defs echoing_def echo_def lower_replies)

text \<open>
  C9, amended. A start or retry text that is a function is called, on a turn that sends,
  with \<^verbatim>\<open>(message, args, { retries: retryCount, infinite: isInfinite, message: prevMessage,
  word })\<close>, where \<^verbatim>\<open>word\<close> is the command input (the word that failed to cast, or the empty
  string) when \<^verbatim>\<open>retryCount\<close> is at most 1, or at most 2 if there is a command input, and the
  content of the previous message otherwise. A cancel text that is a function is called
  with the cancelling reply as \<^verbatim>\<open>message\<close> and the empty string as \<^verbatim>\<open>word\<close>; a time-out text
  that is a function is called with the previous message as \<^verbatim>\<open>message\<close> and the empty string
  as \<^verbatim>\<open>word\<close>. An array of strings is joined with newlines, and a text that is absent or
  empty is not sent. Nothing is said of the \<^verbatim>\<open>ended\<close> text.
\<close>

theorem prompt_functions_data:
  "(shouldSend c rc (addPrompt (message c) st) \<and> prompter c rc = Some (Generator g)
     \<and> g (message c) (args st)
          \<lparr>d_retries = rc, d_infinite = isInfinite c, d_message = prev,
           d_word = (if rc \<le> 1 + of_bool (commandInput c \<noteq> []) then commandInput c
                     else content prev)\<rparr> = Inr res
     \<longrightarrow> trace (snd (startTurn env c prev rc (addPrompt (message c) st)))
          = trace st @ [AddPrompt]
            @ sendEvents (if commandUtil env then Util else Channel) (map_option joined res))
   \<and> (startTurn env c prev rc (addPrompt (message c) st) = (Inr sent, st1)
      \<and> awaitReply c sent st1 = (Reply input, st2)
      \<and> cancelWord (prompt c) = Some cw \<and> toLowerCase (content input) = toLowerCase cw
      \<and> cancel (prompt c) = Some (Generator g)
      \<and> g (message c) (args st2)
          \<lparr>d_retries = rc, d_infinite = isInfinite c, d_message = input, d_word = []\<rparr> = Inr res
      \<and> sendText env Channel (map_option joined res) st2 = (Inr s, st3)
     \<longrightarrow> trace (snd (promptOne env c prev rc st))
          = trace st2 @ sendEvents Channel (map_option joined res) @ [RemovePrompt])
   \<and> (startTurn env c prev rc (addPrompt (message c) st) = (Inr sent, st1)
      \<and> awaitReply c sent st1 = (Rejected TimeExpired, st2)
      \<and> timeout (prompt c) = Some (Generator g)
      \<and> g (message c) (args st2)
          \<lparr>d_retries = rc, d_infinite = isInfinite c, d_message = prev, d_word = []\<rparr> = Inr res
      \<and> sendText env Channel (map_option joined res) st2 = (Inr s, st3)
     \<longrightarrow> trace (snd (promptOne env c prev rc st))
          = trace st2 @ sendEvents Channel (map_option joined res) @ [RemovePrompt])
   \<and> joined (Lines (l # ls)) = l @ concat (map ((#) (CHR 0x0A)) ls)
   \<and> sendEvents tg None = [] \<and> sendEvents tg (Some []) = []"
proof (intro conjI impI)
  assume a: "shouldSend c rc (addPrompt (message c) st) \<and> prompter c rc = Some (Generator g)
     \<and> g (message c) (args st)
          \<lparr>d_retries = rc, d_infinite = isInfinite c, d_message = prev,
           d_word = (if rc \<le> 1 + of_bool (commandInput c \<noteq> []) then commandInput c
                     else content prev)\<rparr> = Inr res"
  let ?tg = "if commandUtil env then Util else Channel"
  let ?s = "addPrompt (message c) st"
  have "trace (snd (startTurn env c prev rc ?s))
          = trace (snd (sendText env ?tg (map_option joined res) ?s))"
    using a
    by (auto simp: startTurn_def getText_generator prevInput_def addPrompt_def
        split: prod.splits sum.splits option.splits)
  then show "trace (snd (startTurn env c prev rc ?s))
          = trace st @ [AddPrompt] @ sendEvents ?tg (map_option joined res)"
    by (simp add: sendText_events addPrompt_def)
next
  assume a: "startTurn env c prev rc (addPrompt (message c) st) = (Inr sent, st1)
      \<and> awaitReply c sent st1 = (Reply input, st2)
      \<and> cancelWord (prompt c) = Some cw \<and> toLowerCase (content input) = toLowerCase cw
      \<and> cancel (prompt c) = Some (Generator g)
      \<and> g (message c) (args st2)
          \<lparr>d_retries = rc, d_infinite = isInfinite c, d_message = input, d_word = []\<rparr> = Inr res
      \<and> sendText env Channel (map_option joined res) st2 = (Inr s, st3)"
  then have "promptOne env c prev rc st = cancelled env c prev rc input st2"
    using promptOne_cancel by blast
  then show "trace (snd (promptOne env c prev rc st))
          = trace st2 @ sendEvents Channel (map_option joined res) @ [RemovePrompt]"
    using a sendText_ok_events [of env Channel "map_option joined res" st2 "Inr s" st3]
    by (simp add: cancelled_def getText_generator catchBlock_cancel removePrompt_def)
next
  assume a: "startTurn env c prev rc (addPrompt (message c) st) = (Inr sent, st1)
      \<and> awaitReply c sent st1 = (Rejected TimeExpired, st2)
      \<and> timeout (prompt c) = Some (Generator g)
      \<and> g (message c) (args st2)
          \<lparr>d_retries = rc, d_infinite = isInfinite c, d_message = prev, d_word = []\<rparr> = Inr res
      \<and> sendText env Channel (map_option joined res) st2 = (Inr s, st3)"
  then have "promptOne env c prev rc st = catchBlock env c prev rc TimeExpired st2"
    using promptOne_await_rejects by blast
  then show "trace (snd (promptOne env c prev rc st))
          = trace st2 @ sendEvents Channel (map_option joined res) @ [RemovePrompt]"
    using a sendText_ok_events [of env Channel "map_option joined res" st2 "Inr s" st3]
    by (simp add: catchBlock_def getText_generator removePrompt_def)
qed (simp_all add: join_lines_Cons sendEvents_def)

text \<open>
  At text functions that return \<^verbatim>\<open>[label, data.word]\<close>, after the word \<^verbatim>\<open>maybe\<close> failed to
  cast: the retry text of the first turn, the retry text of the turn after the reply
  \<^verbatim>\<open>perhaps\<close>, the cancel text and the time-out text.
\<close>

theorem prompt_functions_data_witness:
  "trace (snd (startTurn env0 echoing_closure user_message 2 (addPrompt user_message (state0 []))))
     = [AddPrompt, Send Channel (''retry'' @ [CHR 0x0A] @ ''maybe'')]
   \<and> trace (snd (startTurn env0 echoing_closure (reply 2 ''perhaps'') 3
                    (addPrompt user_message (state0 []))))
     = [AddPrompt, Send Channel (''retry'' @ [CHR 0x0A] @ ''perhaps'')]
   \<and> trace (snd (promptOne env0 echoing_closure user_message 2 (state0 [Arrives (reply 2 ''cancel'')])))
     = [AddPrompt, Send Channel (''retry'' @ [CHR 0x0A] @ ''maybe''), AwaitMessages,
        Send Channel (''cancel'' @ [CHR 0x0A]), RemovePrompt]
   \<and> trace (snd (promptOne env0 echoing_closure user_message 2 (state0 [])))
     = [AddPrompt, Send Channel (''retry'' @ [CHR 0x0A] @ ''maybe''), AwaitMessages,
        Send Channel (''timeout'' @ [CHR 0x0A]), RemovePrompt]"
proof -
  note start_site = prompt_functions_data [THEN conjunct1, rule_format]
  note cancel_site = prompt_functions_data [THEN conjunct2, THEN conjunct1, rule_format]
  note timeout_site = prompt_functions_data [THEN conjunct2, THEN conjunct2, THEN conjunct1,
      rule_format]
  let ?g = "\<lambda>label (m::message) (as::prev_args) d. (Inr (Some (Lines [label, d_word d])) :: thrown + prompt_text option)"
  let ?st1 = "\<lambda>inb. (state0 inb)\<lparr>prompts := {(3, 7)},
                 trace := [AddPrompt, Send Channel (''retry'' @ [CHR 0x0A] @ ''maybe'')]\<rparr>"
  let ?st2 = "(state0 [])\<lparr>prompts := {(3, 7)},
                 trace := [AddPrompt, Send Channel (''retry'' @ [CHR 0x0A] @ ''maybe''),
                           AwaitMessages]\<rparr>"
  have A: "trace (snd (startTurn env0 echoing_closure user_message 2
                         (addPrompt (message echoing_closure) (state0 []))))
            = trace (state0 []) @ [AddPrompt]
              @ sendEvents (if commandUtil env0 then Util else Channel)
                  (map_option joined (Some (Lines [''retry'', ''maybe''])))"
    by (rule start_site [where g = "?g ''retry''"])
       (simp add: echoing_closure_simps shouldSend_def prompter_def echo_def)
  have B: "trace (snd (startTurn env0 echoing_closure (reply 2 ''perhaps'') 3
                         (addPrompt (message echoing_closure) (state0 []))))
            = trace (state0 []) @ [AddPrompt]
              @ sendEvents (if commandUtil env0 then Util else Channel)
                  (map_option joined (Some (Lines [''retry'', ''perhaps''])))"
    by (rule start_site [where g = "?g ''retry''"])
       (simp add: echoing_closure_simps shouldSend_def prompter_def echo_def reply_def)
  have C: "trace (snd (promptOne env0 echoing_closure user_message 2
                         (state0 [Arrives (reply 2 ''cancel'')])))
            = trace ?st2 @ sendEvents Channel (map_option joined (Some (Lines [''cancel'', []])))
              @ [RemovePrompt]"
    by (rule cancel_site [where g = "?g ''cancel''" and sent = "Some 101" and cw = "''cancel''"
          and ?st1.0 = "?st1 [Arrives (reply 2 ''cancel'')]" and input = "reply 2 ''cancel''"
          and s = "Some 103"
          and ?st3.0 = "?st2\<lparr>trace := trace ?st2 @ [Send Channel (''cancel'' @ [CHR 0x0A])]\<rparr>"])
       (simp add: echoing_closure_simps turn_defs input_defs lower_replies echo_def)
  have D: "trace (snd (promptOne env0 echoing_closure user_message 2 (state0 [])))
            = trace ?st2 @ sendEvents Channel (map_option joined (Some (Lines [''timeout'', []])))
              @ [RemovePrompt]"
    by (rule timeout_site [where g = "?g ''timeout''" and sent = "Some 101"
          and ?st1.0 = "?st1 []" and s = "Some 103"
          and ?st3.0 = "?st2\<lparr>trace := trace ?st2 @ [Send Channel (''timeout'' @ [CHR 0x0A])]\<rparr>"])
       (simp add: echoing_closure_simps turn_defs input_defs echo_def)
  from A B C D show ?thesis
    by (simp add: echoing_closure_simps sendEvents_def env0_def state0_def)
qed

section \<open>The number of retries\<close>

text \<open>
  C1 at a prompt with \<^verbatim>\<open>retries = 1\<close> and three replies that do not cast, after which the
  window closes. The claim allows one retry turn. The code runs three, with
  \<^verbatim>\<open>retryCount\<close> 2, 3 and 4 (the retry text shows one \<^verbatim>\<open>!\<close> per count), and only the time-out
  ends the session: \<^verbatim>\<open>promptOne\<close> never reads \<^verbatim>\<open>prompt.retries\<close>.
\<close>

theorem retries_not_enforced:
  "retries (mergedPrompt env0 yes_no) = Some 1
   \<and> fst (collect env0 yes_no user_message [] (state0 three_wrong)) = Some (Inl CommandCancelled)
   \<and> trace (snd (collect env0 yes_no user_message [] (state0 three_wrong)))
       = [AddPrompt, Send Channel ''yes or no?'', AwaitMessages,
          AddPrompt, Send Channel ''retry !!'', AwaitMessages,
          AddPrompt, Send Channel ''retry !!!'', AwaitMessages,
          AddPrompt, Send Channel ''retry !!!!'', AwaitMessages, RemovePrompt]"
  by (simp add: engine_defs input_defs yes_no_def three_wrong_def lower_replies)

text \<open>
  More generally, no session depends on \<^verbatim>\<open>prompt.retries\<close> or on \<^verbatim>\<open>prompt.ended\<close>: with any
  other values for the two, every turn does the same.
\<close>

lemma promptOne_ignores_retries_and_ended:
  "promptOne env (c\<lparr>prompt := (prompt c)\<lparr>retries := r, ended := e\<rparr>\<rparr>) prev rc st
     = promptOne env c prev rc st"
proof (induction "length (inbox st)" arbitrary: prev rc st rule: less_induct)
  case less
  let ?c = "c\<lparr>prompt := (prompt c)\<lparr>retries := r, ended := e\<rparr>\<rparr>"
  have same_head: "\<And>p k s. startTurn env ?c p k s = startTurn env c p k s"
    "\<And>sent s. awaitReply ?c sent s = awaitReply c sent s"
    by (simp_all add: startTurn_def shouldSend_def prompter_def prevInput_def awaitReply_def)
  have same_catch: "\<And>p k err s. catchBlock env ?c p k err s = catchBlock env c p k err s"
    by (simp add: catchBlock_def split: sum.splits prod.splits)
  have same_cancel: "\<And>p k i s. cancelled env ?c p k i s = cancelled env c p k i s"
    by (simp add: cancelled_def same_catch split: sum.splits prod.splits)
  note same = same_head same_catch same_cancel
  obtain r0 st1 where h: "startTurn env c prev rc (addPrompt (message c) st) = (r0, st1)"
    by fastforce
  show ?case
  proof (cases r0)
    case (Inl x)
    then show ?thesis
      using h by (subst (1 2) promptOne.simps) (simp add: same)
  next
    case (Inr sent)
    note h' = h [unfolded Inr]
    obtain a st2 where aw: "awaitReply c sent st1 = (a, st2)" by fastforce
    show ?thesis
    proof (cases a)
      case (Rejected err)
      then show ?thesis
        using h' aw by (subst (1 2) promptOne.simps) (simp add: same)
    next
      case (Reply input)
      note aw' = aw [unfolded Reply]
      have short: "length (inbox st2) < length (inbox st)"
        using turn_shorter [of sent st1 env c prev rc "message c" st input st2] h' aw' by simp
      have IH: "\<And>p k s. inbox s = inbox st2 \<Longrightarrow> promptOne env ?c p k s = promptOne env c p k s"
        using less.hyps short by simp
      have ipush: "\<And>v. inbox (push (self c) v st2) = inbox st2"
        by (simp add: push_def)
      show ?thesis
        apply (subst (1 2) promptOne.simps)
        using IH [of st2] IH [OF ipush]
        by (simp add: same h' aw' split: sum.splits bool.splits option.splits)
    qed
  qed
qed

end
